theory Spec2Isabelle
  imports Main "HOL-Library.Multiset"
begin

section \<open>Data model\<close>

text \<open>
  The objects that travel through the stack builder (\<^verbatim>\<open>create-stack/route.js\<close>) and
  the browser storage (\<^verbatim>\<open>tasteProfileStorage.js\<close>). JavaScript strings are
  \<open>string\<close>; an array is a list. A date string (\<^verbatim>\<open>local_date\<close>) is represented by the
  time value that \<^verbatim>\<open>new Date(local_date)\<close> yields, so dates are assumed to parse.
\<close>

text \<open>\<^verbatim>\<open>source: { type: 'track', artist, title }\<close> or \<^verbatim>\<open>{ type: 'genre', genreId }\<close>.\<close>

datatype source = TrackSource string string | GenreSource string

text \<open>The object \<^verbatim>\<open>searchSpotifyTrack\<close> returns on a match.\<close>

record spotify_data =
  sp_id :: string
  sp_uri :: string
  sp_url :: string
  sp_name :: string
  sp_artist :: string

text \<open>
  A track as \<^verbatim>\<open>fetchTracklist\<close> builds it, as the collection loop of \<^verbatim>\<open>POST\<close> extends it
  with its episode, and as the enrichment step extends it with \<^verbatim>\<open>spotify\<close>.
\<close>

record fetched_track =
  uid :: string
  artist :: string
  title :: string
  episodePath :: string

record collected_track = fetched_track +
  episodeTitle :: string
  airDate :: int
  source :: source

record stack_track = collected_track +
  spotify :: "spotify_data option"

text \<open>A track seed of the request body, \<^verbatim>\<open>{artist, title}\<close>.\<close>

record track_seed =
  seed_artist :: string
  seed_title :: string

text \<open>An episode as \<^verbatim>\<open>fetchEpisodesForTrack\<close> and \<^verbatim>\<open>fetchEpisodesForGenre\<close> build it.\<close>

record episode =
  path :: string
  ep_title :: string
  ep_airDate :: int
  ep_source :: source

text \<open>The argument of \<^verbatim>\<open>generateStackName\<close>: \<^verbatim>\<open>{tracks, genres}\<close>.\<close>

record stack_sources =
  src_tracks :: "track_seed list"
  src_genres :: "string list"

record stack =
  stack_id :: string
  createdAt :: string
  name :: string
  sources :: stack_sources
  tracks :: "stack_track list"
  episodesUsed :: "episode list"
  summary :: string

section \<open>Browser storage (tasteProfileStorage.js)\<close>

text \<open>
  \<^verbatim>\<open>localStorage\<close> holds three items; \<open>None\<close> is an item that was never set (or was
  removed), for which \<^verbatim>\<open>getItem\<close> returns \<^verbatim>\<open>null\<close>. \<^verbatim>\<open>JSON.parse (JSON.stringify v)\<close>
  is taken to give \<open>v\<close> back. The functions are modelled in the browser, where
  \<^verbatim>\<open>window\<close> is defined.
\<close>

record local_storage =
  SEEN_EPISODES :: "string list option"
  REFERENCED_TRACKS :: "string list option"
  STACK_HISTORY :: "stack list option"

definition getSeenEpisodes :: "local_storage \<Rightarrow> string list" where
  "getSeenEpisodes st = (case SEEN_EPISODES st of None \<Rightarrow> [] | Some d \<Rightarrow> d)"

definition markEpisodeAsSeen :: "string \<Rightarrow> local_storage \<Rightarrow> local_storage" where
  "markEpisodeAsSeen p st =
     (let seen = getSeenEpisodes st
      in if p \<notin> set seen
         then st\<lparr>SEEN_EPISODES := Some (seen @ [p])\<rparr>
         else st)"

definition isEpisodeSeen :: "string \<Rightarrow> local_storage \<Rightarrow> bool" where
  "isEpisodeSeen p st = (p \<in> set (getSeenEpisodes st))"

definition clearSeenEpisodes :: "local_storage \<Rightarrow> local_storage" where
  "clearSeenEpisodes st = st\<lparr>SEEN_EPISODES := None\<rparr>"

text \<open>
  A JavaScript \<^verbatim>\<open>Set\<close> keeps its elements in insertion order; \<^verbatim>\<open>new Set(xs)\<close> adds the
  elements of \<open>xs\<close> one by one, and adding an element already there changes nothing.
\<close>

definition set_add :: "'a \<Rightarrow> 'a list \<Rightarrow> 'a list" where
  "set_add x s = (if x \<in> set s then s else s @ [x])"

definition new_Set :: "'a list \<Rightarrow> 'a list" where
  "new_Set xs = foldl (\<lambda>s x. set_add x s) [] xs"

definition getReferencedTracks :: "local_storage \<Rightarrow> string list" where
  "getReferencedTracks st = (case REFERENCED_TRACKS st of None \<Rightarrow> [] | Some d \<Rightarrow> d)"

definition markTracksAsReferenced :: "string list \<Rightarrow> local_storage \<Rightarrow> local_storage" where
  "markTracksAsReferenced trackUids st =
     (let referenced = getReferencedTracks st;
          updated = new_Set (referenced @ trackUids)
      in st\<lparr>REFERENCED_TRACKS := Some updated\<rparr>)"

definition isTrackReferenced :: "string \<Rightarrow> local_storage \<Rightarrow> bool" where
  "isTrackReferenced u st = (u \<in> set (getReferencedTracks st))"

definition clearReferencedTracks :: "local_storage \<Rightarrow> local_storage" where
  "clearReferencedTracks st = st\<lparr>REFERENCED_TRACKS := None\<rparr>"

definition getStackHistory :: "local_storage \<Rightarrow> stack list" where
  "getStackHistory st = (case STACK_HISTORY st of None \<Rightarrow> [] | Some d \<Rightarrow> d)"

text \<open>\<^verbatim>\<open>history.unshift(stack); history.slice(0, 50)\<close>.\<close>

definition saveStackToHistory :: "stack \<Rightarrow> local_storage \<Rightarrow> local_storage" where
  "saveStackToHistory s st =
     (let history = s # getStackHistory st;
          trimmed = take 50 history
      in st\<lparr>STACK_HISTORY := Some trimmed\<rparr>)"

definition getStackById :: "string \<Rightarrow> local_storage \<Rightarrow> stack option" where
  "getStackById stackId st = find (\<lambda>s. stack_id s = stackId) (getStackHistory st)"

text \<open>
  \<^verbatim>\<open>deleteStack\<close>: the referenced tracks are rewritten only when a stack with the id is
  found; the history is rewritten in both cases.
\<close>

definition deleteStack :: "string \<Rightarrow> local_storage \<Rightarrow> local_storage" where
  "deleteStack stackId st =
     (let history = getStackHistory st;
          stackToDelete = find (\<lambda>s. stack_id s = stackId) history;
          st1 = (case stackToDelete of
                   None \<Rightarrow> st
                 | Some sd \<Rightarrow>
                     (let deletedTrackUids = map uid (tracks sd);
                          remainingStacks = filter (\<lambda>s. stack_id s \<noteq> stackId) history;
                          remainingTrackUids =
                            new_Set (concat (map (\<lambda>s. map uid (tracks s)) remainingStacks));
                          currentReferenced = getReferencedTracks st;
                          updatedReferenced =
                            filter (\<lambda>u. u \<notin> set deletedTrackUids
                                          \<or> u \<in> set remainingTrackUids)
                              currentReferenced
                      in st\<lparr>REFERENCED_TRACKS := Some updatedReferenced\<rparr>));
          filtered = filter (\<lambda>s. stack_id s \<noteq> stackId) history
      in st1\<lparr>STACK_HISTORY := Some filtered\<rparr>)"

definition clearStackHistory :: "local_storage \<Rightarrow> local_storage" where
  "clearStackHistory st = st\<lparr>STACK_HISTORY := None\<rparr>"

definition clearAllTasteProfileData :: "local_storage \<Rightarrow> local_storage" where
  "clearAllTasteProfileData st = clearStackHistory (clearReferencedTracks (clearSeenEpisodes st))"

section \<open>Strings\<close>

text \<open>A number in a template literal is printed in decimal.\<close>

definition digit_char :: "nat \<Rightarrow> char" where
  "digit_char d = ''0123456789'' ! d"

function show_nat :: "nat \<Rightarrow> string" where
  "show_nat n = (if n < 10 then [digit_char n] else show_nat (n div 10) @ [digit_char (n mod 10)])"
  by pat_completeness auto
termination
  by (relation "measure (\<lambda>n. n)") auto

declare show_nat.simps [simp del]

text \<open>\<^verbatim>\<open>Array.prototype.join\<close>.\<close>

fun join :: "string \<Rightarrow> string list \<Rightarrow> string" where
  "join sep [] = []"
| "join sep [x] = x"
| "join sep (x # y # ys) = x @ sep @ join sep (y # ys)"

section \<open>Stack names (tasteProfileStorage.js)\<close>

text \<open>
  \<^verbatim>\<open>generateStackName\<close>. A string is truthy when it is not empty, so
  \<^verbatim>\<open>if (track.artist)\<close> keeps the seeds whose artist is not the empty string.
\<close>

definition generateStackName :: "stack_sources \<Rightarrow> string" where
  "generateStackName srcs =
     (let artistNames =
            (if length (src_tracks srcs) > 0
             then map seed_artist (filter (\<lambda>track. seed_artist track \<noteq> []) (src_tracks srcs))
             else []);
          genreNames = (if length (src_genres srcs) > 0 then src_genres srcs else [])
      in if length artistNames > 0 \<and> length genreNames > 0 then
           (let firstArtist = artistNames ! 0;
                firstGenre = genreNames ! 0
            in if length artistNames = 1 \<and> length genreNames = 1 then
                 firstArtist @ '' + '' @ firstGenre
               else if length artistNames > 1 \<and> length genreNames = 1 then
                 firstArtist @ '' & More + '' @ firstGenre
               else if length artistNames = 1 \<and> length genreNames > 1 then
                 firstArtist @ '' + '' @ firstGenre @ '' Mix''
               else
                 firstArtist @ '' + '' @ firstGenre @ '' & More'')
         else if length artistNames > 0 then
           (if length artistNames = 1 then
              artistNames ! 0 @ '' Mix''
            else if length artistNames = 2 then
              artistNames ! 0 @ '' + '' @ artistNames ! 1
            else
              artistNames ! 0 @ '' & '' @ show_nat (length artistNames - 1) @ '' More'')
         else if length genreNames > 0 then
           (if length genreNames = 1 then
              genreNames ! 0 @ '' Stack''
            else if length genreNames = 2 then
              genreNames ! 0 @ '' + '' @ genreNames ! 1
            else
              genreNames ! 0 @ '' Mix'')
         else ''Music Stack'')"

text \<open>
  The naming rule as the specification words it, by the shape of the two lists of names:
  the artist names and the genre names.
\<close>

fun stack_name_rule :: "string list \<Rightarrow> string list \<Rightarrow> string" where
  "stack_name_rule [a] [g] = a @ '' + '' @ g"
| "stack_name_rule (a # a2 # as) [g] = a @ '' & More + '' @ g"
| "stack_name_rule [a] (g # g2 # gs) = a @ '' + '' @ g @ '' Mix''"
| "stack_name_rule (a # a2 # as) (g # g2 # gs) = a @ '' + '' @ g @ '' & More''"
| "stack_name_rule [a] [] = a @ '' Mix''"
| "stack_name_rule [a1, a2] [] = a1 @ '' + '' @ a2"
| "stack_name_rule (a1 # a2 # a3 # as) [] =
     a1 @ '' & '' @ show_nat (length (a1 # a2 # a3 # as) - 1) @ '' More''"
| "stack_name_rule [] [g] = g @ '' Stack''"
| "stack_name_rule [] [g1, g2] = g1 @ '' + '' @ g2"
| "stack_name_rule [] (g1 # g2 # g3 # gs) = g1 @ '' Mix''"
| "stack_name_rule [] [] = ''Music Stack''"

section \<open>The services the stack builder calls\<close>

text \<open>
  What an awaited \<^verbatim>\<open>fetch\<close> followed by \<^verbatim>\<open>response.json()\<close> can give: the promise
  rejects (the network fails, or the body is not JSON), the response is not \<^verbatim>\<open>ok\<close>, or
  the response is \<^verbatim>\<open>ok\<close> and carries a body.
\<close>

datatype 'a response = Rejected | NotOk nat | Ok 'a

text \<open>
  An entry of \<^verbatim>\<open>data.results\<close> of the two NTS search endpoints: \<^verbatim>\<open>article.path\<close>,
  \<^verbatim>\<open>article.title\<close>, \<^verbatim>\<open>title\<close> and \<^verbatim>\<open>local_date\<close>.
\<close>

record nts_result =
  article_path :: string
  article_title :: string
  result_title :: string
  local_date :: int

text \<open>An entry of an NTS tracklist.\<close>

record nts_track =
  track_uid :: string
  track_artist :: string
  track_title :: string

text \<open>
  An entry of \<^verbatim>\<open>data.tracks.items\<close> of the Spotify search: \<^verbatim>\<open>id\<close>, \<^verbatim>\<open>uri\<close>,
  \<^verbatim>\<open>external_urls.spotify\<close>, \<^verbatim>\<open>name\<close> and the names of \<^verbatim>\<open>artists\<close>.
\<close>

record spotify_item =
  item_id :: string
  item_uri :: string
  item_external_url :: string
  item_name :: string
  item_artists :: "string list"

text \<open>
  The services, as functions of the request. A body whose \<^verbatim>\<open>results\<close> is missing is
  \<open>None\<close>. The Spotify search also takes the number of searches issued before it, so
  that asking again could be told from asking once. \<^verbatim>\<open>encodeURIComponent\<close> is left out:
  the services are keyed by the query before encoding. The clock gives \<^verbatim>\<open>Date.now()\<close>
  and \<^verbatim>\<open>new Date().toISOString()\<close>.
\<close>

record world =
  nts_search :: "string \<Rightarrow> nts_result list option response"
  nts_genre_episodes :: "string \<Rightarrow> nts_result list option response"
  nts_tracklist :: "string \<Rightarrow> nts_track list option response"
  spotify_token :: "string response"
  spotify_search :: "nat \<Rightarrow> string \<Rightarrow> string \<Rightarrow> spotify_item list response"
  now_ms :: nat
  now_iso :: string

text \<open>\<^verbatim>\<open>data.results || []\<close>.\<close>

definition results_or_empty :: "'a list option \<Rightarrow> 'a list" where
  "results_or_empty d = (case d of None \<Rightarrow> [] | Some rs \<Rightarrow> rs)"

text \<open>
  \<^verbatim>\<open>Array.prototype.sort\<close> with a comparator is a stable sort: \<open>a\<close> stays before \<open>b\<close>
  unless \<open>cmp a b > 0\<close>. Written as an insertion sort that inserts from the right.
\<close>

fun js_insert :: "('a \<Rightarrow> 'a \<Rightarrow> int) \<Rightarrow> 'a \<Rightarrow> 'a list \<Rightarrow> 'a list" where
  "js_insert cmp x [] = [x]"
| "js_insert cmp x (y # ys) = (if cmp x y \<le> 0 then x # y # ys else y # js_insert cmp x ys)"

definition js_sort :: "('a \<Rightarrow> 'a \<Rightarrow> int) \<Rightarrow> 'a list \<Rightarrow> 'a list" where
  "js_sort cmp xs = foldr (js_insert cmp) xs []"

section \<open>The stack builder (create-stack/route.js)\<close>

text \<open>A thrown error is \<open>Inl\<close> of its message.\<close>

definition getSpotifyToken :: "world \<Rightarrow> string + string" where
  "getSpotifyToken w =
     (case spotify_token w of
        Rejected \<Rightarrow> Inl ''fetch failed''
      | NotOk status \<Rightarrow> Inl ''Failed to get Spotify token''
      | Ok access_token \<Rightarrow> Inr access_token)"

definition searchSpotifyTrack ::
  "world \<Rightarrow> nat \<Rightarrow> string \<Rightarrow> string \<Rightarrow> string \<Rightarrow> string + spotify_data option" where
  "searchSpotifyTrack w n artist' title' accessToken =
     (let query = artist' @ '' '' @ title'
      in case spotify_search w n accessToken query of
           Rejected \<Rightarrow> Inl ''fetch failed''
         | NotOk status \<Rightarrow> Inr None
         | Ok items \<Rightarrow>
             (case items of
                [] \<Rightarrow> Inr None
              | track # rest \<Rightarrow>
                  Inr (Some \<lparr>sp_id = item_id track,
                             sp_uri = item_uri track,
                             sp_url = item_external_url track,
                             sp_name = item_name track,
                             sp_artist =
                               (case item_artists track of
                                  [] \<Rightarrow> artist'
                                | a # others \<Rightarrow> if a = [] then artist' else a)\<rparr>)))"

definition fetchEpisodesForTrack ::
  "world \<Rightarrow> string \<Rightarrow> string \<Rightarrow> string list \<Rightarrow> string + episode list" where
  "fetchEpisodesForTrack w artist' title' seenEpisodes =
     (let queryParts = filter (\<lambda>s. s \<noteq> []) [title', artist'];
          query = join '' '' queryParts
      in case nts_search w query of
           Rejected \<Rightarrow> Inl ''fetch failed''
         | NotOk status \<Rightarrow> Inl (''NTS API returned '' @ show_nat status)
         | Ok data \<Rightarrow>
             (let results = results_or_empty data;
                  sorted = js_sort (\<lambda>a b. local_date b - local_date a) results;
                  unseen = filter (\<lambda>result. article_path result \<notin> set seenEpisodes) sorted
              in Inr (map (\<lambda>result. \<lparr>path = article_path result,
                                       ep_title = article_title result,
                                       ep_airDate = local_date result,
                                       ep_source = TrackSource artist' title'\<rparr>)
                        (take 5 unseen))))"

definition fetchEpisodesForGenre ::
  "world \<Rightarrow> string \<Rightarrow> string list \<Rightarrow> string + episode list" where
  "fetchEpisodesForGenre w genreId seenEpisodes =
     (case nts_genre_episodes w genreId of
        Rejected \<Rightarrow> Inl ''fetch failed''
      | NotOk status \<Rightarrow> Inl (''NTS genre API returned '' @ show_nat status)
      | Ok data \<Rightarrow>
          (let results = results_or_empty data;
               unseen = filter (\<lambda>episode. article_path episode \<notin> set seenEpisodes) results
           in Inr (map (\<lambda>episode. \<lparr>path = article_path episode,
                                     ep_title = result_title episode,
                                     ep_airDate = local_date episode,
                                     ep_source = GenreSource genreId\<rparr>)
                     (take 5 unseen))))"

definition fetchTracklist :: "world \<Rightarrow> string \<Rightarrow> string + fetched_track list" where
  "fetchTracklist w episodePath' =
     (case nts_tracklist w episodePath' of
        Rejected \<Rightarrow> Inl ''fetch failed''
      | NotOk status \<Rightarrow> Inr []
      | Ok data \<Rightarrow>
          Inr (map (\<lambda>track. \<lparr>uid = track_uid track,
                              artist = track_artist track,
                              title = track_title track,
                              episodePath = episodePath'\<rparr>)
                 (results_or_empty data)))"

text \<open>\<^verbatim>\<open>promise.catch(err => d)\<close>: a rejected promise becomes the value \<open>d\<close>.\<close>

definition catch :: "'a \<Rightarrow> string + 'a \<Rightarrow> 'a" where
  "catch d r = (case r of Inl err \<Rightarrow> d | Inr v \<Rightarrow> v)"

text \<open>
  \<^verbatim>\<open>Promise.all\<close>: the values in the order of the promises, or a rejection when one of
  them rejects. Which rejection is reported when several reject depends on time; the
  handler of \<^verbatim>\<open>POST\<close> does not tell them apart.
\<close>

fun promise_all :: "(string + 'a) list \<Rightarrow> string + 'a list" where
  "promise_all [] = Inr []"
| "promise_all (Inl err # rs) = Inl err"
| "promise_all (Inr v # rs) =
     (case promise_all rs of Inl err \<Rightarrow> Inl err | Inr vs \<Rightarrow> Inr (v # vs))"

text \<open>
  A JavaScript \<^verbatim>\<open>Map\<close> keeps its keys in insertion order. \<^verbatim>\<open>set\<close> on a key already
  there replaces the value and leaves the key where it is; \<^verbatim>\<open>new Map(entries)\<close> sets the
  entries one by one.
\<close>

fun map_set :: "'k \<Rightarrow> 'v \<Rightarrow> ('k \<times> 'v) list \<Rightarrow> ('k \<times> 'v) list" where
  "map_set k v [] = [(k, v)]"
| "map_set k v ((k', v') # m) = (if k' = k then (k', v) # m else (k', v') # map_set k v m)"

definition new_Map :: "('k \<times> 'v) list \<Rightarrow> ('k \<times> 'v) list" where
  "new_Map entries = foldl (\<lambda>m (k, v). map_set k v m) [] entries"

definition map_values :: "('k \<times> 'v) list \<Rightarrow> 'v list" where
  "map_values m = map snd m"

text \<open>The request body, with the defaults of the destructuring applied.\<close>

datatype genre_seed = GenreString string | GenreObject string string

fun genre_id :: "genre_seed \<Rightarrow> string" where
  "genre_id (GenreString g) = g"
| "genre_id (GenreObject i n) = i"

fun genre_name :: "genre_seed \<Rightarrow> string" where
  "genre_name (GenreString g) = g"
| "genre_name (GenreObject i n) = n"

record request =
  req_tracks :: "track_seed list"
  req_genres :: "genre_seed list"
  req_seenEpisodes :: "string list"
  req_referencedTracks :: "string list"

text \<open>An error response: the status and the \<^verbatim>\<open>error\<close> text (\<^verbatim>\<open>details\<close> is left out).\<close>

datatype api_error = ApiError nat string

text \<open>Step 1: the episodes of every track seed, then of every genre seed.\<close>

definition episodeResults :: "world \<Rightarrow> request \<Rightarrow> episode list list" where
  "episodeResults w body =
     map (\<lambda>track. catch []
            (fetchEpisodesForTrack w (seed_artist track) (seed_title track)
               (req_seenEpisodes body)))
       (req_tracks body)
     @ map (\<lambda>genre. catch []
              (fetchEpisodesForGenre w (genre_id genre) (req_seenEpisodes body)))
         (req_genres body)"

definition uniqueEpisodes :: "episode list \<Rightarrow> episode list" where
  "uniqueEpisodes allEpisodes = map_values (new_Map (map (\<lambda>ep. (path ep, ep)) allEpisodes))"

text \<open>Step 2: the tracklist of every episode.\<close>

definition tracklistResults :: "world \<Rightarrow> episode list \<Rightarrow> (episode \<times> fetched_track list) list" where
  "tracklistResults w eps = map (\<lambda>ep. (ep, catch [] (fetchTracklist w (path ep)))) eps"

text \<open>Step 3: the two nested loops that push the tracks not yet referenced.\<close>

definition push_track ::
  "string list \<Rightarrow> episode \<Rightarrow> collected_track list \<Rightarrow> fetched_track \<Rightarrow> collected_track list" where
  "push_track referencedTracks ep allTracks track =
     (if uid track \<notin> set referencedTracks
      then allTracks @ [\<lparr>uid = uid track, artist = artist track, title = title track,
                         episodePath = episodePath track,
                         episodeTitle = ep_title ep, airDate = ep_airDate ep,
                         source = ep_source ep\<rparr>]
      else allTracks)"

definition collectTracks ::
  "string list \<Rightarrow> (episode \<times> fetched_track list) list \<Rightarrow> collected_track list" where
  "collectTracks referencedTracks results =
     foldl (\<lambda>allTracks (ep, trs). foldl (push_track referencedTracks ep) allTracks trs) [] results"

text \<open>Step 3.5: \<^verbatim>\<open>{...track, spotify: spotifyData}\<close> for every track, all at once.\<close>

definition with_spotify :: "collected_track \<Rightarrow> spotify_data option \<Rightarrow> stack_track" where
  "with_spotify track spotifyData =
     \<lparr>uid = uid track, artist = artist track, title = title track,
      episodePath = episodePath track, episodeTitle = episodeTitle track,
      airDate = airDate track, source = source track, spotify = spotifyData\<rparr>"

definition enrichTracks :: "world \<Rightarrow> string \<Rightarrow> collected_track list \<Rightarrow> string + stack_track list" where
  "enrichTracks w spotifyToken allTracks =
     promise_all
       (map (\<lambda>(n, track).
               case searchSpotifyTrack w n (artist track) (title track) spotifyToken of
                 Inl err \<Rightarrow> Inl err
               | Inr spotifyData \<Rightarrow> Inr (with_spotify track spotifyData))
          (enumerate 0 allTracks))"

text \<open>The token is requested first; without it no search is issued.\<close>

definition enrichStep :: "world \<Rightarrow> collected_track list \<Rightarrow> string + stack_track list" where
  "enrichStep w allTracks =
     (case getSpotifyToken w of
        Inl err \<Rightarrow> Inl err
      | Inr spotifyToken \<Rightarrow> enrichTracks w spotifyToken allTracks)"

text \<open>Step 4: the stack.\<close>

definition names_part :: "string list \<Rightarrow> string" where
  "names_part names =
     join '', '' (take 2 names)
     @ (if length names > 2 then '' +'' @ show_nat (length names - 2) @ '' more'' else [])"

definition buildStack :: "world \<Rightarrow> request \<Rightarrow> episode list \<Rightarrow> stack_track list \<Rightarrow> stack" where
  "buildStack w body uniqueEps tracksWithSpotify =
     (let genreNames = map genre_name (req_genres body);
          seedTracks = map (\<lambda>t. \<lparr>seed_artist = seed_artist t, seed_title = seed_title t\<rparr>)
                         (req_tracks body);
          stackName = generateStackName \<lparr>src_tracks = seedTracks, src_genres = genreNames\<rparr>;
          artistNames = filter (\<lambda>a. a \<noteq> []) (map seed_artist (req_tracks body));
          summaryParts =
            (if length (req_tracks body) > 0 \<and> length artistNames > 0
             then [names_part artistNames] else [])
            @ (if length (req_genres body) > 0 then [names_part genreNames] else []);
          episodeText = (if length uniqueEps = 1 then ''episode'' else ''episodes'');
          counts = show_nat (length tracksWithSpotify) @ '' curated tracks from ''
                   @ show_nat (length uniqueEps) @ '' NTS '' @ episodeText;
          summary' = (if length summaryParts > 0
                      then counts @ '' featuring '' @ join '' and '' summaryParts
                      else counts)
      in \<lparr>stack_id = show_nat (now_ms w),
          createdAt = now_iso w,
          name = stackName,
          sources = \<lparr>src_tracks = seedTracks, src_genres = genreNames\<rparr>,
          tracks = tracksWithSpotify,
          episodesUsed = map (\<lambda>ep. \<lparr>path = path ep, ep_title = ep_title ep,
                                     ep_airDate = ep_airDate ep, ep_source = ep_source ep\<rparr>)
                           uniqueEps,
          summary = summary'\<rparr>)"

text \<open>
  The handler, for a body that parses. Every exception that reaches the outer
  \<^verbatim>\<open>try\<close> becomes the response with status 500.
\<close>

definition allEpisodes :: "world \<Rightarrow> request \<Rightarrow> episode list" where
  "allEpisodes w body = concat (episodeResults w body)"

definition allTracks :: "world \<Rightarrow> request \<Rightarrow> collected_track list" where
  "allTracks w body =
     collectTracks (req_referencedTracks body)
       (tracklistResults w (uniqueEpisodes (allEpisodes w body)))"

definition POST :: "world \<Rightarrow> request \<Rightarrow> api_error + stack" where
  "POST w body =
     (if length (req_tracks body) = 0 \<and> length (req_genres body) = 0 then
        Inl (ApiError 400 ''Must provide at least one track or genre'')
      else
        (let uniqueEps = uniqueEpisodes (allEpisodes w body)
         in if length uniqueEps = 0 then
              Inl (ApiError 404 ''No episodes found. All episodes may have been seen already.'')
            else
              (case enrichStep w (allTracks w body) of
                 Inl err \<Rightarrow> Inl (ApiError 500 ''Failed to create stack'')
               | Inr tracksWithSpotify \<Rightarrow>
                   Inr (buildStack w body uniqueEps tracksWithSpotify))))"

section \<open>Example data\<close>

text \<open>Storage states and stacks on which the theorems below are run.\<close>

definition demo_track :: "string \<Rightarrow> stack_track" where
  "demo_track u =
     \<lparr>uid = u, artist = ''X'', title = ''Y'', episodePath = ''/shows/a/episodes/1'',
      episodeTitle = ''A'', airDate = 0, source = GenreSource ''house'', spotify = None\<rparr>"

definition demo_stack :: "string \<Rightarrow> string list \<Rightarrow> stack" where
  "demo_stack i us =
     \<lparr>stack_id = i, createdAt = [], name = ''Music Stack'',
      sources = \<lparr>src_tracks = [], src_genres = []\<rparr>,
      tracks = map demo_track us, episodesUsed = [], summary = []\<rparr>"

definition empty_storage :: local_storage where
  "empty_storage = \<lparr>SEEN_EPISODES = None, REFERENCED_TRACKS = None, STACK_HISTORY = None\<rparr>"

definition seen_storage :: local_storage where
  "seen_storage = empty_storage\<lparr>SEEN_EPISODES := Some [''/shows/a'', ''/shows/b'']\<rparr>"

definition full_storage :: local_storage where
  "full_storage = empty_storage\<lparr>STACK_HISTORY := Some (replicate 50 (demo_stack ''0'' []))\<rparr>"

text \<open>Two stacks that share the track \<open>b\<close>, every track referenced.\<close>

definition shared_storage :: local_storage where
  "shared_storage =
     \<lparr>SEEN_EPISODES = None,
      REFERENCED_TRACKS = Some [''a'', ''b'', ''c''],
      STACK_HISTORY = Some [demo_stack ''1'' [''a'', ''b''], demo_stack ''2'' [''b'', ''c'']]\<rparr>"

text \<open>
  Two stacks with the track \<open>a\<close> are saved, and the referenced tracks are cleared with
  the history left in place.
\<close>

definition cleared_storage :: local_storage where
  "cleared_storage =
     clearReferencedTracks
       (markTracksAsReferenced [''a'']
          (saveStackToHistory (demo_stack ''2'' [''a''])
             (clearReferencedTracks
                (markTracksAsReferenced [''a'']
                   (saveStackToHistory (demo_stack ''1'' [''a'']) empty_storage)))))"

text \<open>
  A world for the stack builder. The track search for \<open>Y X\<close> and the genre \<open>house\<close>
  return the same seven episodes, not in date order; every other track search answers
  503 and every other genre request is rejected. Episodes \<open>/5\<close> and \<open>/6\<close> both list the
  track \<open>u1\<close>; the tracklist of \<open>/2\<close> is rejected and that of \<open>/4\<close> answers 404. The
  Spotify search finds \<open>X Y\<close> when it is the first search issued, answers 429 to any
  later search for \<open>X Y\<close>, and finds nothing else.
\<close>

definition demo_result :: "string \<Rightarrow> int \<Rightarrow> nts_result" where
  "demo_result p d =
     \<lparr>article_path = p, article_title = ''Show'', result_title = ''Episode'', local_date = d\<rparr>"

definition demo_results :: "nts_result list" where
  "demo_results =
     [demo_result ''/1'' 1, demo_result ''/2'' 3, demo_result ''/3'' 2, demo_result ''/4'' 3,
      demo_result ''/5'' 5, demo_result ''/6'' 4, demo_result ''/7'' 0]"

definition demo_item :: spotify_item where
  "demo_item =
     \<lparr>item_id = ''sp1'', item_uri = ''spotify:track:sp1'',
      item_external_url = ''https://open.spotify.com/track/sp1'',
      item_name = ''Y'', item_artists = [''X'']\<rparr>"

definition demo_world :: world where
  "demo_world =
     \<lparr>nts_search = (\<lambda>q. if q = ''Y X'' then Ok (Some demo_results) else NotOk 503),
      nts_genre_episodes = (\<lambda>g. if g = ''house'' then Ok (Some demo_results) else Rejected),
      nts_tracklist =
        (\<lambda>p. if p = ''/5'' then
                 Ok (Some [\<lparr>track_uid = ''u1'', track_artist = ''X'', track_title = ''Y''\<rparr>,
                           \<lparr>track_uid = ''u2'', track_artist = ''P'', track_title = ''Q''\<rparr>])
              else if p = ''/6'' then
                 Ok (Some [\<lparr>track_uid = ''u1'', track_artist = ''X'', track_title = ''Y''\<rparr>])
              else if p = ''/2'' then Rejected
              else if p = ''/4'' then NotOk 404
              else Ok None),
      spotify_token = Ok ''token'',
      spotify_search =
        (\<lambda>n tok q. if q = ''X Y'' \<and> n = 0 then Ok [demo_item]
                    else if q = ''X Y'' then NotOk 429
                    else Ok []),
      now_ms = 1700000000000,
      now_iso = ''2023-11-14T22:13:20.000Z''\<rparr>"

text \<open>
  A request with two track seeds (the second one fails at the search) and two genre
  seeds (the second one fails), episode \<open>/3\<close> seen and no track referenced.
\<close>

definition demo_request :: request where
  "demo_request =
     \<lparr>req_tracks = [\<lparr>seed_artist = ''X'', seed_title = ''Y''\<rparr>,
                    \<lparr>seed_artist = [], seed_title = ''down''\<rparr>],
      req_genres = [GenreString ''house'', GenreString ''techno''],
      req_seenEpisodes = [''/3''],
      req_referencedTracks = []\<rparr>"

definition track_episode :: "string \<Rightarrow> int \<Rightarrow> episode" where
  "track_episode p d =
     \<lparr>path = p, ep_title = ''Show'', ep_airDate = d, ep_source = TrackSource ''X'' ''Y''\<rparr>"

definition genre_episode :: "string \<Rightarrow> int \<Rightarrow> episode" where
  "genre_episode p d =
     \<lparr>path = p, ep_title = ''Episode'', ep_airDate = d, ep_source = GenreSource ''house''\<rparr>"

definition demo_collected :: "string \<Rightarrow> string \<Rightarrow> string \<Rightarrow> string \<Rightarrow> int \<Rightarrow> collected_track" where
  "demo_collected u a t p d =
     \<lparr>uid = u, artist = a, title = t, episodePath = p,
      episodeTitle = ''Episode'', airDate = d, source = GenreSource ''house''\<rparr>"

text \<open>
  The same world with the token request answered 401, and with the second Spotify search
  rejected; the same request with both tracks already referenced, with every episode
  seen, and with no seed.
\<close>

definition no_token_world :: world where
  "no_token_world = demo_world\<lparr>spotify_token := NotOk 401\<rparr>"

definition flaky_world :: world where
  "flaky_world = demo_world\<lparr>spotify_search := (\<lambda>n tok q. if n = 1 then Rejected else Ok [])\<rparr>"

definition referenced_request :: request where
  "referenced_request = demo_request\<lparr>req_referencedTracks := [''u1'', ''u2'']\<rparr>"

definition seen_request :: request where
  "seen_request =
     demo_request\<lparr>req_seenEpisodes := [''/1'', ''/2'', ''/3'', ''/4'', ''/5'', ''/6'', ''/7'']\<rparr>"

definition empty_request :: request where
  "empty_request = demo_request\<lparr>req_tracks := [], req_genres := []\<rparr>"

section \<open>Seen episodes\<close>

lemma getSeenEpisodes_mark:
  "getSeenEpisodes (markEpisodeAsSeen p st) =
     (if p \<in> set (getSeenEpisodes st) then getSeenEpisodes st else getSeenEpisodes st @ [p])"
  by (simp add: markEpisodeAsSeen_def Let_def getSeenEpisodes_def)

text \<open>
  C10. Marking an episode that is already in the seen list leaves the storage as it is,
  so marking the same path twice is the same as marking it once; and a seen list without
  duplicates stays without duplicates.
\<close>

theorem markEpisodeAsSeen_idempotent:
  "(p \<in> set (getSeenEpisodes st) \<longrightarrow> markEpisodeAsSeen p st = st)
   \<and> markEpisodeAsSeen p (markEpisodeAsSeen p st) = markEpisodeAsSeen p st
   \<and> (distinct (getSeenEpisodes st) \<longrightarrow> distinct (getSeenEpisodes (markEpisodeAsSeen p st)))"
proof (intro conjI impI)
  assume "p \<in> set (getSeenEpisodes st)"
  then show "markEpisodeAsSeen p st = st"
    by (simp add: markEpisodeAsSeen_def Let_def)
next
  have "p \<in> set (getSeenEpisodes (markEpisodeAsSeen p st))"
    by (simp add: getSeenEpisodes_mark)
  then show "markEpisodeAsSeen p (markEpisodeAsSeen p st) = markEpisodeAsSeen p st"
    by (simp add: markEpisodeAsSeen_def [of p "markEpisodeAsSeen p st"] Let_def)
next
  assume "distinct (getSeenEpisodes st)"
  then show "distinct (getSeenEpisodes (markEpisodeAsSeen p st))"
    by (simp add: getSeenEpisodes_mark)
qed

text \<open>The witness: \<open>/shows/a\<close> is already in a duplicate-free seen list.\<close>

theorem markEpisodeAsSeen_idempotent_witness:
  "''/shows/a'' \<in> set (getSeenEpisodes seen_storage)
   \<and> distinct (getSeenEpisodes seen_storage)
   \<and> markEpisodeAsSeen ''/shows/a'' seen_storage = seen_storage
   \<and> markEpisodeAsSeen ''/shows/a'' (markEpisodeAsSeen ''/shows/a'' seen_storage)
       = markEpisodeAsSeen ''/shows/a'' seen_storage
   \<and> distinct (getSeenEpisodes (markEpisodeAsSeen ''/shows/a'' seen_storage))"
proof -
  have a: "''/shows/a'' \<in> set (getSeenEpisodes seen_storage)"
    by (simp add: seen_storage_def empty_storage_def getSeenEpisodes_def)
  have d: "distinct (getSeenEpisodes seen_storage)"
    by (simp add: seen_storage_def empty_storage_def getSeenEpisodes_def)
  show ?thesis
    using a d markEpisodeAsSeen_idempotent [of "''/shows/a''" seen_storage] by simp
qed

section \<open>Stack history\<close>

lemma getStackHistory_save:
  "getStackHistory (saveStackToHistory s st) = take 50 (s # getStackHistory st)"
  by (simp add: saveStackToHistory_def Let_def getStackHistory_def)

text \<open>
  C8. Saving a stack puts it at the front of the history and keeps at most 50 stacks:
  the stored history is the new stack followed by the first 49 of the old ones. A
  history of fewer than 50 stacks is kept whole, and a history of 50 loses its last
  (oldest) stack.
\<close>

theorem saveStackToHistory_bounded:
  "hd (getStackHistory (saveStackToHistory s st)) = s
   \<and> length (getStackHistory (saveStackToHistory s st)) \<le> 50
   \<and> getStackHistory (saveStackToHistory s st) = s # take 49 (getStackHistory st)
   \<and> (length (getStackHistory st) < 50 \<longrightarrow>
        getStackHistory (saveStackToHistory s st) = s # getStackHistory st)
   \<and> (length (getStackHistory st) = 50 \<longrightarrow>
        getStackHistory (saveStackToHistory s st) = s # butlast (getStackHistory st))"
proof -
  have eq: "getStackHistory (saveStackToHistory s st) = s # take 49 (getStackHistory st)"
    by (simp add: getStackHistory_save take_Cons')
  have "length (getStackHistory st) = 50 \<Longrightarrow>
        take 49 (getStackHistory st) = butlast (getStackHistory st)"
    by (simp add: butlast_conv_take)
  with eq show ?thesis by auto
qed

text \<open>The witness: a history that holds 50 stacks, and the empty history.\<close>

theorem saveStackToHistory_bounded_witness:
  "length (getStackHistory full_storage) = 50
   \<and> getStackHistory (saveStackToHistory (demo_stack ''1'' []) full_storage)
       = demo_stack ''1'' [] # butlast (getStackHistory full_storage)
   \<and> length (getStackHistory (saveStackToHistory (demo_stack ''1'' []) full_storage)) = 50
   \<and> getStackHistory (saveStackToHistory (demo_stack ''1'' []) empty_storage)
       = [demo_stack ''1'' []]"
proof -
  have l: "length (getStackHistory full_storage) = 50"
    by (simp add: full_storage_def empty_storage_def getStackHistory_def)
  have e: "getStackHistory empty_storage = []"
    by (simp add: empty_storage_def getStackHistory_def)
  have full: "getStackHistory (saveStackToHistory (demo_stack ''1'' []) full_storage)
          = demo_stack ''1'' [] # butlast (getStackHistory full_storage)"
    using l saveStackToHistory_bounded [of "demo_stack ''1'' []" full_storage] by blast
  have "getStackHistory (saveStackToHistory (demo_stack ''1'' []) empty_storage)
          = demo_stack ''1'' [] # take 49 (getStackHistory empty_storage)"
    using saveStackToHistory_bounded [of "demo_stack ''1'' []" empty_storage] by blast
  then have empty: "getStackHistory (saveStackToHistory (demo_stack ''1'' []) empty_storage)
          = [demo_stack ''1'' []]"
    by (simp add: e)
  have "length (getStackHistory (saveStackToHistory (demo_stack ''1'' []) full_storage)) = 50"
    unfolding full using l by simp
  with l full empty show ?thesis by blast
qed

section \<open>Deleting a stack\<close>

lemma find_None_ids: "find (\<lambda>s. stack_id s = sid) h = None \<longleftrightarrow> sid \<notin> stack_id ` set h"
  by (auto simp: find_None_iff)

lemma new_Set_snoc: "new_Set (xs @ [x]) = set_add x (new_Set xs)"
  by (simp add: new_Set_def)

lemma set_new_Set: "set (new_Set xs) = set xs"
proof (induction xs rule: rev_induct)
  case Nil
  show ?case by (simp add: new_Set_def)
next
  case (snoc x xs)
  then show ?case by (auto simp: new_Set_snoc set_add_def)
qed

lemma filter_ids_remove1:
  "distinct (map stack_id h) \<Longrightarrow> find (\<lambda>s. stack_id s = sid) h = Some sd \<Longrightarrow>
   filter (\<lambda>s. stack_id s \<noteq> sid) h = remove1 sd h"
proof (induction h)
  case Nil
  then show ?case by simp
next
  case (Cons a h)
  show ?case
  proof (cases "stack_id a = sid")
    case True
    with Cons.prems have "sd = a" and "sid \<notin> stack_id ` set h" by auto
    then have "filter (\<lambda>s. stack_id s \<noteq> sid) h = h" by (auto simp: filter_id_conv)
    with True \<open>sd = a\<close> show ?thesis by simp
  next
    case False
    with Cons.prems have "find (\<lambda>s. stack_id s = sid) h = Some sd" by simp
    moreover from this have "stack_id sd = sid" by (auto simp: find_Some_iff)
    ultimately show ?thesis using Cons False by auto
  qed
qed

text \<open>
  C1, as the code has it. When no stack of the history has the id, the history and the
  referenced tracks read back unchanged. Otherwise, with \<open>sd\<close> the stack found, the
  history loses every stack with that id (which is \<open>sd\<close> alone when the ids are distinct),
  and the referenced tracks are filtered: a key stays iff it is not a key of \<open>sd\<close> or it is
  a key of a stack that remains. As sets, the new referenced tracks are
  \<open>(referenced - deleted) \<union> (referenced \<inter> deleted \<inter> remaining)\<close>: keys are removed and
  never added. This is \<open>(referenced - deleted) \<union> (deleted \<inter> remaining)\<close> when every
  key shared by \<open>sd\<close> and a remaining stack is referenced.
\<close>

theorem deleteStack_reclaim:
  "(sid \<notin> stack_id ` set (getStackHistory st) \<longrightarrow>
       getStackHistory (deleteStack sid st) = getStackHistory st
     \<and> getReferencedTracks (deleteStack sid st) = getReferencedTracks st)
   \<and> (\<forall>sd. find (\<lambda>s. stack_id s = sid) (getStackHistory st) = Some sd \<longrightarrow>
       getStackHistory (deleteStack sid st)
         = filter (\<lambda>s. stack_id s \<noteq> sid) (getStackHistory st)
     \<and> sd \<notin> set (getStackHistory (deleteStack sid st))
     \<and> (distinct (map stack_id (getStackHistory st)) \<longrightarrow>
          getStackHistory (deleteStack sid st) = remove1 sd (getStackHistory st))
     \<and> getReferencedTracks (deleteStack sid st) =
          filter (\<lambda>u. u \<notin> uid ` set (tracks sd)
                     \<or> u \<in> (\<Union>s \<in> set (getStackHistory (deleteStack sid st)).
                               uid ` set (tracks s)))
            (getReferencedTracks st)
     \<and> set (getReferencedTracks (deleteStack sid st)) =
          (set (getReferencedTracks st) - uid ` set (tracks sd))
          \<union> (set (getReferencedTracks st) \<inter> uid ` set (tracks sd)
              \<inter> (\<Union>s \<in> set (getStackHistory (deleteStack sid st)). uid ` set (tracks s)))
     \<and> (uid ` set (tracks sd)
            \<inter> (\<Union>s \<in> set (getStackHistory (deleteStack sid st)). uid ` set (tracks s))
          \<subseteq> set (getReferencedTracks st) \<longrightarrow>
        set (getReferencedTracks (deleteStack sid st)) =
          (set (getReferencedTracks st) - uid ` set (tracks sd))
          \<union> (uid ` set (tracks sd)
              \<inter> (\<Union>s \<in> set (getStackHistory (deleteStack sid st)).
                    uid ` set (tracks s)))))"
proof (intro conjI allI impI)
  assume a: "sid \<notin> stack_id ` set (getStackHistory st)"
  then have n: "find (\<lambda>s. stack_id s = sid) (getStackHistory st) = None"
    by (simp add: find_None_ids)
  from a have f: "filter (\<lambda>s. stack_id s \<noteq> sid) (getStackHistory st) = getStackHistory st"
    by (auto simp: filter_id_conv)
  show "getStackHistory (deleteStack sid st) = getStackHistory st"
    using n f by (simp add: deleteStack_def Let_def getStackHistory_def)
  show "getReferencedTracks (deleteStack sid st) = getReferencedTracks st"
    using n by (simp add: deleteStack_def Let_def getReferencedTracks_def)
next
  fix sd
  assume s: "find (\<lambda>s. stack_id s = sid) (getStackHistory st) = Some sd"
  show h: "getStackHistory (deleteStack sid st)
             = filter (\<lambda>s. stack_id s \<noteq> sid) (getStackHistory st)"
    by (simp add: deleteStack_def Let_def getStackHistory_def split: option.splits)
  from s have "stack_id sd = sid" by (auto simp: find_Some_iff)
  then show "sd \<notin> set (getStackHistory (deleteStack sid st))" by (simp add: h)
  have rem: "(\<Union>s \<in> set (getStackHistory (deleteStack sid st)). uid ` set (tracks s))
      = set (new_Set (concat (map (\<lambda>s. map uid (tracks s))
                 (filter (\<lambda>s. stack_id s \<noteq> sid) (getStackHistory st)))))"
    by (auto simp: h set_new_Set)
  show r: "getReferencedTracks (deleteStack sid st) =
          filter (\<lambda>u. u \<notin> uid ` set (tracks sd)
                     \<or> u \<in> (\<Union>s \<in> set (getStackHistory (deleteStack sid st)).
                               uid ` set (tracks s)))
            (getReferencedTracks st)"
    unfolding rem using s
    by (simp add: deleteStack_def Let_def getReferencedTracks_def)
  show r2: "set (getReferencedTracks (deleteStack sid st)) =
          (set (getReferencedTracks st) - uid ` set (tracks sd))
          \<union> (set (getReferencedTracks st) \<inter> uid ` set (tracks sd)
              \<inter> (\<Union>s \<in> set (getStackHistory (deleteStack sid st)). uid ` set (tracks s)))"
    unfolding r by auto
  {
    assume "uid ` set (tracks sd)
            \<inter> (\<Union>s \<in> set (getStackHistory (deleteStack sid st)). uid ` set (tracks s))
          \<subseteq> set (getReferencedTracks st)"
    then show "set (getReferencedTracks (deleteStack sid st)) =
          (set (getReferencedTracks st) - uid ` set (tracks sd))
          \<union> (uid ` set (tracks sd)
              \<inter> (\<Union>s \<in> set (getStackHistory (deleteStack sid st)).
                    uid ` set (tracks s)))"
      unfolding r2 by blast
  }
  {
    assume "distinct (map stack_id (getStackHistory st))"
    then show "getStackHistory (deleteStack sid st) = remove1 sd (getStackHistory st)"
      using s h by (simp add: filter_ids_remove1)
  }
qed

lemma shared_storage_history:
  "getStackHistory shared_storage
     = [demo_stack ''1'' [''a'', ''b''], demo_stack ''2'' [''b'', ''c'']]"
  by (simp add: shared_storage_def getStackHistory_def)

lemma shared_storage_referenced: "getReferencedTracks shared_storage = [''a'', ''b'', ''c'']"
  by (simp add: shared_storage_def getReferencedTracks_def)

lemma uid_demo_stack: "uid ` set (tracks (demo_stack i us)) = set us"
  by (auto simp: demo_stack_def demo_track_def image_iff)

text \<open>
  The witness: in a history of two stacks that share the track \<open>b\<close>, deleting an id that
  is not there changes nothing, and deleting stack \<open>1\<close> removes \<open>a\<close> and keeps \<open>b\<close>.
\<close>

theorem deleteStack_reclaim_witness:
  "''9'' \<notin> stack_id ` set (getStackHistory shared_storage)
   \<and> getStackHistory (deleteStack ''9'' shared_storage) = getStackHistory shared_storage
   \<and> getReferencedTracks (deleteStack ''9'' shared_storage)
       = getReferencedTracks shared_storage
   \<and> find (\<lambda>s. stack_id s = ''1'') (getStackHistory shared_storage)
       = Some (demo_stack ''1'' [''a'', ''b''])
   \<and> distinct (map stack_id (getStackHistory shared_storage))
   \<and> getStackHistory (deleteStack ''1'' shared_storage) = [demo_stack ''2'' [''b'', ''c'']]
   \<and> getReferencedTracks (deleteStack ''1'' shared_storage) = [''b'', ''c'']
   \<and> set (getReferencedTracks (deleteStack ''1'' shared_storage))
       = ({''a'', ''b'', ''c''} - {''a'', ''b''}) \<union> ({''a'', ''b''} \<inter> {''b'', ''c''})"
proof -
  have absent: "''9'' \<notin> stack_id ` set (getStackHistory shared_storage)"
    by (simp add: shared_storage_history demo_stack_def)
  have found: "find (\<lambda>s. stack_id s = ''1'') (getStackHistory shared_storage)
                 = Some (demo_stack ''1'' [''a'', ''b''])"
    by (simp add: shared_storage_history demo_stack_def)
  have ids: "distinct (map stack_id (getStackHistory shared_storage))"
    by (simp add: shared_storage_history demo_stack_def)
  have noop: "getStackHistory (deleteStack ''9'' shared_storage) = getStackHistory shared_storage
        \<and> getReferencedTracks (deleteStack ''9'' shared_storage)
            = getReferencedTracks shared_storage"
    using absent deleteStack_reclaim [of "''9''" shared_storage] by blast
  have del: "getStackHistory (deleteStack ''1'' shared_storage)
               = remove1 (demo_stack ''1'' [''a'', ''b'']) (getStackHistory shared_storage)
        \<and> getReferencedTracks (deleteStack ''1'' shared_storage) =
          filter (\<lambda>u. u \<notin> uid ` set (tracks (demo_stack ''1'' [''a'', ''b'']))
                     \<or> u \<in> (\<Union>s \<in> set (getStackHistory (deleteStack ''1'' shared_storage)).
                               uid ` set (tracks s)))
            (getReferencedTracks shared_storage)"
    using found ids deleteStack_reclaim [of "''1''" shared_storage] by blast
  then have h: "getStackHistory (deleteStack ''1'' shared_storage)
                  = [demo_stack ''2'' [''b'', ''c'']]"
    by (simp add: shared_storage_history)
  from del have r: "getReferencedTracks (deleteStack ''1'' shared_storage) = [''b'', ''c'']"
    by (simp add: h uid_demo_stack shared_storage_referenced)
  have s: "({''a'', ''b'', ''c''} - {''a'', ''b''}) \<union> ({''a'', ''b''} \<inter> {''b'', ''c''})
             = {''b'', ''c''}"
    by auto
  show ?thesis
    using absent found ids noop h r unfolding s by simp
qed

lemma cleared_storage_history:
  "getStackHistory cleared_storage = [demo_stack ''2'' [''a''], demo_stack ''1'' [''a'']]"
  by (simp add: cleared_storage_def clearReferencedTracks_def markTracksAsReferenced_def
      saveStackToHistory_def getStackHistory_def empty_storage_def Let_def)

lemma cleared_storage_referenced: "getReferencedTracks cleared_storage = []"
  by (simp add: cleared_storage_def clearReferencedTracks_def getReferencedTracks_def)

text \<open>
  The formula \<open>(referenced - deleted) \<union> (deleted \<inter> remaining)\<close> fails where a key shared
  by the deleted stack and a remaining stack is not referenced: the filter cannot add it.
  Here stack \<open>2\<close> is deleted, stack \<open>1\<close> remains and holds \<open>a\<close> too, and nothing is
  referenced; the formula gives \<open>{a}\<close>, the code leaves the referenced tracks empty.
\<close>

theorem deleteStack_formula_counterexample:
  "find (\<lambda>s. stack_id s = ''2'') (getStackHistory cleared_storage)
     = Some (demo_stack ''2'' [''a''])
   \<and> getStackHistory (deleteStack ''2'' cleared_storage) = [demo_stack ''1'' [''a'']]
   \<and> getReferencedTracks (deleteStack ''2'' cleared_storage) = []
   \<and> set (getReferencedTracks (deleteStack ''2'' cleared_storage))
       \<noteq> (set (getReferencedTracks cleared_storage)
            - uid ` set (tracks (demo_stack ''2'' [''a''])))
          \<union> (uid ` set (tracks (demo_stack ''2'' [''a'']))
              \<inter> (\<Union>s \<in> set (getStackHistory (deleteStack ''2'' cleared_storage)).
                    uid ` set (tracks s)))"
proof -
  have f: "find (\<lambda>s. stack_id s = ''2'') (getStackHistory cleared_storage)
             = Some (demo_stack ''2'' [''a''])"
    by (simp add: cleared_storage_history demo_stack_def)
  have h: "getStackHistory (deleteStack ''2'' cleared_storage) = [demo_stack ''1'' [''a'']]"
    by (simp add: deleteStack_def Let_def getStackHistory_def [of "_\<lparr>STACK_HISTORY := _\<rparr>"]
        cleared_storage_history demo_stack_def split: option.splits)
  have r: "getReferencedTracks (deleteStack ''2'' cleared_storage) = []"
    using f
    by (simp add: deleteStack_def Let_def cleared_storage_referenced
        getReferencedTracks_def [of "_\<lparr>REFERENCED_TRACKS := _\<rparr>"]
        getReferencedTracks_def [of "_\<lparr>STACK_HISTORY := _\<rparr>"])
  show ?thesis
    unfolding h r using f by (simp add: cleared_storage_referenced uid_demo_stack)
qed

section \<open>Stack names\<close>

lemma name_rule_eq:
  "(let artistNames = as; genreNames = gs
      in if length artistNames > 0 \<and> length genreNames > 0 then
           (let firstArtist = artistNames ! 0;
                firstGenre = genreNames ! 0
            in if length artistNames = 1 \<and> length genreNames = 1 then
                 firstArtist @ '' + '' @ firstGenre
               else if length artistNames > 1 \<and> length genreNames = 1 then
                 firstArtist @ '' & More + '' @ firstGenre
               else if length artistNames = 1 \<and> length genreNames > 1 then
                 firstArtist @ '' + '' @ firstGenre @ '' Mix''
               else
                 firstArtist @ '' + '' @ firstGenre @ '' & More'')
         else if length artistNames > 0 then
           (if length artistNames = 1 then
              artistNames ! 0 @ '' Mix''
            else if length artistNames = 2 then
              artistNames ! 0 @ '' + '' @ artistNames ! 1
            else
              artistNames ! 0 @ '' & '' @ show_nat (length artistNames - 1) @ '' More'')
         else if length genreNames > 0 then
           (if length genreNames = 1 then
              genreNames ! 0 @ '' Stack''
            else if length genreNames = 2 then
              genreNames ! 0 @ '' + '' @ genreNames ! 1
            else
              genreNames ! 0 @ '' Mix'')
         else ''Music Stack'') = stack_name_rule as gs"
  by (induction as gs rule: stack_name_rule.induct) (simp_all add: Let_def)

text \<open>
  C7. The name that \<^verbatim>\<open>generateStackName\<close> computes is the name the rule gives for the
  artists of the track seeds with a non-empty artist and the genre names, in all eleven
  cases of the rule.
\<close>

theorem generateStackName_rule:
  "generateStackName srcs =
     stack_name_rule (map seed_artist (filter (\<lambda>t. seed_artist t \<noteq> []) (src_tracks srcs)))
       (src_genres srcs)"
proof -
  have a: "(if length (src_tracks srcs) > 0
             then map seed_artist (filter (\<lambda>track. seed_artist track \<noteq> []) (src_tracks srcs))
             else []) = map seed_artist (filter (\<lambda>t. seed_artist t \<noteq> []) (src_tracks srcs))"
    by simp
  have g: "(if length (src_genres srcs) > 0 then src_genres srcs else []) = src_genres srcs"
    by simp
  show ?thesis
    unfolding generateStackName_def a g by (rule name_rule_eq)
qed

lemma generateStackName_examples:
  "generateStackName
     \<lparr>src_tracks = [\<lparr>seed_artist = ''Bonobo'', seed_title = []\<rparr>], src_genres = []\<rparr>
     = ''Bonobo Mix''"
  "generateStackName
     \<lparr>src_tracks = [\<lparr>seed_artist = ''A'', seed_title = []\<rparr>,
                    \<lparr>seed_artist = [], seed_title = ''x''\<rparr>,
                    \<lparr>seed_artist = ''B'', seed_title = []\<rparr>,
                    \<lparr>seed_artist = ''C'', seed_title = []\<rparr>,
                    \<lparr>seed_artist = ''D'', seed_title = []\<rparr>],
      src_genres = []\<rparr>
     = ''A & 3 More''"
  "generateStackName
     \<lparr>src_tracks = [\<lparr>seed_artist = ''A'', seed_title = []\<rparr>,
                    \<lparr>seed_artist = ''B'', seed_title = []\<rparr>],
      src_genres = [''house'']\<rparr>
     = ''A & More + house''"
  by (simp_all add: generateStackName_def show_nat.simps digit_char_def)

section \<open>The example world, step by step\<close>

lemma show_nat_digit: "n < 10 \<Longrightarrow> show_nat n = [digit_char n]"
  by (simp add: show_nat.simps [of n])

lemma show_nat_step:
  "10 \<le> n \<Longrightarrow> show_nat n = show_nat (n div 10) @ [digit_char (n mod 10)]"
  by (simp add: show_nat.simps [of n])

lemmas show_nat_eval = show_nat_digit show_nat_step digit_char_def

lemma demo_search: "nts_search demo_world ''Y X'' = Ok (Some demo_results)"
  by (simp add: demo_world_def)

lemma demo_genre: "nts_genre_episodes demo_world ''house'' = Ok (Some demo_results)"
  by (simp add: demo_world_def)

lemma demo_newest_first:
  "sort_key (\<lambda>r. - local_date r) demo_results =
     [demo_result ''/5'' 5, demo_result ''/6'' 4, demo_result ''/2'' 3, demo_result ''/4'' 3,
      demo_result ''/3'' 2, demo_result ''/1'' 1, demo_result ''/7'' 0]"
  by (simp add: demo_results_def demo_result_def)

lemma demo_track_seed:
  "fetchEpisodesForTrack demo_world ''X'' ''Y'' [''/3''] =
     Inr [track_episode ''/5'' 5, track_episode ''/6'' 4, track_episode ''/2'' 3,
          track_episode ''/4'' 3, track_episode ''/1'' 1]"
  by (simp add: fetchEpisodesForTrack_def demo_world_def demo_results_def demo_result_def
      js_sort_def results_or_empty_def track_episode_def)

lemma demo_genre_seed:
  "fetchEpisodesForGenre demo_world ''house'' [''/3''] =
     Inr [genre_episode ''/1'' 1, genre_episode ''/2'' 3, genre_episode ''/4'' 3,
          genre_episode ''/5'' 5, genre_episode ''/6'' 4]"
  by (simp add: fetchEpisodesForGenre_def demo_world_def demo_results_def demo_result_def
      results_or_empty_def genre_episode_def)

lemma demo_failed_track_seed:
  "fetchEpisodesForTrack demo_world [] ''down'' [''/3''] = Inl ''NTS API returned 503''"
  by (simp add: fetchEpisodesForTrack_def demo_world_def show_nat_eval)

lemma demo_failed_genre_seed:
  "fetchEpisodesForGenre demo_world ''techno'' [''/3''] = Inl ''fetch failed''"
  by (simp add: fetchEpisodesForGenre_def demo_world_def)

lemma demo_episodeResults:
  "episodeResults demo_world demo_request =
     [[track_episode ''/5'' 5, track_episode ''/6'' 4, track_episode ''/2'' 3,
       track_episode ''/4'' 3, track_episode ''/1'' 1],
      [],
      [genre_episode ''/1'' 1, genre_episode ''/2'' 3, genre_episode ''/4'' 3,
       genre_episode ''/5'' 5, genre_episode ''/6'' 4],
      []]"
  by (simp add: episodeResults_def demo_request_def demo_track_seed demo_genre_seed
      demo_failed_track_seed demo_failed_genre_seed catch_def)

lemma demo_allEpisodes:
  "allEpisodes demo_world demo_request =
     [track_episode ''/5'' 5, track_episode ''/6'' 4, track_episode ''/2'' 3,
      track_episode ''/4'' 3, track_episode ''/1'' 1,
      genre_episode ''/1'' 1, genre_episode ''/2'' 3, genre_episode ''/4'' 3,
      genre_episode ''/5'' 5, genre_episode ''/6'' 4]"
  by (simp add: allEpisodes_def demo_episodeResults)

lemma demo_uniqueEpisodes:
  "uniqueEpisodes (allEpisodes demo_world demo_request) =
     [genre_episode ''/5'' 5, genre_episode ''/6'' 4, genre_episode ''/2'' 3,
      genre_episode ''/4'' 3, genre_episode ''/1'' 1]"
  by (simp add: demo_allEpisodes uniqueEpisodes_def new_Map_def map_values_def
      track_episode_def genre_episode_def)

section \<open>Per-seed resolution\<close>

lemma js_insert_insort:
  "js_insert (\<lambda>a b. f b - f a) x ys = insort_key (\<lambda>r. - f r) x ys"
  for f :: "'a \<Rightarrow> int"
  by (induction ys) auto

lemma js_sort_sort_key:
  "js_sort (\<lambda>a b. f b - f a) xs = sort_key (\<lambda>r. - f r) xs"
  for f :: "'a \<Rightarrow> int"
  by (induction xs) (simp_all add: js_sort_def js_insert_insort)

lemma sorted_desc:
  "sorted_wrt (\<lambda>x y. f y \<le> f x) (sort_key (\<lambda>r. - f r) xs)"
  for f :: "'a \<Rightarrow> int"
proof -
  have "sorted (map (\<lambda>r. - f r) (sort_key (\<lambda>r. - f r) xs))"
    by (rule sorted_sort_key)
  then show ?thesis by (simp add: sorted_map)
qed

lemma stable_desc:
  "filter (\<lambda>r. f r = d) (sort_key (\<lambda>r. - f r) xs) = filter (\<lambda>r. f r = d) xs"
  for f :: "'a \<Rightarrow> int"
  using sort_key_stable [of "\<lambda>r. - f r" "- d" xs] by simp

lemma sorted_wrt_take_filter:
  "sorted_wrt R xs \<Longrightarrow> sorted_wrt R (take n (filter P xs))"
  by (simp add: sorted_wrt_filter sorted_wrt_take)

lemma fetchEpisodesForTrack_Ok:
  assumes "nts_search w (join '' '' (filter (\<lambda>s. s \<noteq> []) [t, a])) = Ok data"
  shows "fetchEpisodesForTrack w a t seen =
           Inr (map (\<lambda>r. \<lparr>path = article_path r, ep_title = article_title r,
                            ep_airDate = local_date r, ep_source = TrackSource a t\<rparr>)
                  (take 5 (filter (\<lambda>r. article_path r \<notin> set seen)
                     (sort_key (\<lambda>r. - local_date r) (results_or_empty data)))))"
  using assms by (simp add: fetchEpisodesForTrack_def Let_def js_sort_sort_key)

lemma fetchEpisodesForTrack_Inr:
  assumes "fetchEpisodesForTrack w a t seen = Inr eps"
  shows "\<exists>data. nts_search w (join '' '' (filter (\<lambda>s. s \<noteq> []) [t, a])) = Ok data"
  using assms by (auto simp: fetchEpisodesForTrack_def Let_def split: response.splits)

lemma fetchEpisodesForGenre_Ok:
  assumes "nts_genre_episodes w g = Ok data"
  shows "fetchEpisodesForGenre w g seen =
           Inr (map (\<lambda>e. \<lparr>path = article_path e, ep_title = result_title e,
                            ep_airDate = local_date e, ep_source = GenreSource g\<rparr>)
                  (take 5 (filter (\<lambda>e. article_path e \<notin> set seen) (results_or_empty data))))"
  using assms by (simp add: fetchEpisodesForGenre_def Let_def)

lemma fetchEpisodesForGenre_Inr:
  assumes "fetchEpisodesForGenre w g seen = Inr eps"
  shows "\<exists>data. nts_genre_episodes w g = Ok data"
  using assms by (auto simp: fetchEpisodesForGenre_def Let_def split: response.splits)

lemma unseen_take: "e \<in> set (take n (filter P xs)) \<Longrightarrow> P e"
  by (auto dest: in_set_takeD)

text \<open>
  C4, as the code has it. For a track seed whose search answers, the episodes are the
  results sorted newest first (a stable sort: a permutation of the results, in
  descending date order, equal dates in the order returned), then without the seen
  paths, then cut to the first five. For a genre seed there is no sort: the episodes are
  the results in the order returned, without the seen paths, cut to the first five. In
  both cases at most five episodes come back and none of them is seen; the episodes of a
  track seed are in descending date order.
\<close>

theorem per_seed_resolution:
  "(\<forall>data. nts_search w (join '' '' (filter (\<lambda>s. s \<noteq> []) [t, a])) = Ok data \<longrightarrow>
      (let newest_first = sort_key (\<lambda>r. - local_date r) (results_or_empty data)
       in fetchEpisodesForTrack w a t seen =
            Inr (map (\<lambda>r. \<lparr>path = article_path r, ep_title = article_title r,
                             ep_airDate = local_date r, ep_source = TrackSource a t\<rparr>)
                   (take 5 (filter (\<lambda>r. article_path r \<notin> set seen) newest_first)))
          \<and> sorted_wrt (\<lambda>x y. local_date y \<le> local_date x) newest_first
          \<and> mset newest_first = mset (results_or_empty data)
          \<and> (\<forall>d. filter (\<lambda>r. local_date r = d) newest_first
                   = filter (\<lambda>r. local_date r = d) (results_or_empty data))))
   \<and> (\<forall>data. nts_genre_episodes w g = Ok data \<longrightarrow>
        fetchEpisodesForGenre w g seen =
          Inr (map (\<lambda>e. \<lparr>path = article_path e, ep_title = result_title e,
                           ep_airDate = local_date e, ep_source = GenreSource g\<rparr>)
                 (take 5 (filter (\<lambda>e. article_path e \<notin> set seen) (results_or_empty data)))))
   \<and> (\<forall>eps. fetchEpisodesForTrack w a t seen = Inr eps
             \<or> fetchEpisodesForGenre w g seen = Inr eps \<longrightarrow>
          length eps \<le> 5 \<and> (\<forall>e \<in> set eps. path e \<notin> set seen))
   \<and> (\<forall>eps. fetchEpisodesForTrack w a t seen = Inr eps \<longrightarrow>
          sorted_wrt (\<lambda>x y. ep_airDate y \<le> ep_airDate x) eps)"
proof (intro conjI allI impI ballI)
  fix data
  assume ok: "nts_search w (join '' '' (filter (\<lambda>s. s \<noteq> []) [t, a])) = Ok data"
  show "let newest_first = sort_key (\<lambda>r. - local_date r) (results_or_empty data)
       in fetchEpisodesForTrack w a t seen =
            Inr (map (\<lambda>r. \<lparr>path = article_path r, ep_title = article_title r,
                             ep_airDate = local_date r, ep_source = TrackSource a t\<rparr>)
                   (take 5 (filter (\<lambda>r. article_path r \<notin> set seen) newest_first)))
          \<and> sorted_wrt (\<lambda>x y. local_date y \<le> local_date x) newest_first
          \<and> mset newest_first = mset (results_or_empty data)
          \<and> (\<forall>d. filter (\<lambda>r. local_date r = d) newest_first
                   = filter (\<lambda>r. local_date r = d) (results_or_empty data))"
    unfolding Let_def
    using fetchEpisodesForTrack_Ok [OF ok, of seen]
    by (simp add: sorted_desc stable_desc)
next
  fix data
  assume "nts_genre_episodes w g = Ok data"
  then show "fetchEpisodesForGenre w g seen =
          Inr (map (\<lambda>e. \<lparr>path = article_path e, ep_title = result_title e,
                           ep_airDate = local_date e, ep_source = GenreSource g\<rparr>)
                 (take 5 (filter (\<lambda>e. article_path e \<notin> set seen) (results_or_empty data))))"
    by (rule fetchEpisodesForGenre_Ok)
next
  fix eps
  assume "fetchEpisodesForTrack w a t seen = Inr eps \<or> fetchEpisodesForGenre w g seen = Inr eps"
  then show "length eps \<le> 5"
  proof
    assume e: "fetchEpisodesForTrack w a t seen = Inr eps"
    then obtain data where "nts_search w (join '' '' (filter (\<lambda>s. s \<noteq> []) [t, a])) = Ok data"
      using fetchEpisodesForTrack_Inr by blast
    from fetchEpisodesForTrack_Ok [OF this, of seen] e show ?thesis by auto
  next
    assume e: "fetchEpisodesForGenre w g seen = Inr eps"
    then obtain data where "nts_genre_episodes w g = Ok data"
      using fetchEpisodesForGenre_Inr by blast
    from fetchEpisodesForGenre_Ok [OF this, of seen] e show ?thesis by auto
  qed
next
  fix eps e
  assume d: "fetchEpisodesForTrack w a t seen = Inr eps \<or> fetchEpisodesForGenre w g seen = Inr eps"
    and m: "e \<in> set eps"
  from d show "path e \<notin> set seen"
  proof
    assume e: "fetchEpisodesForTrack w a t seen = Inr eps"
    then obtain data where "nts_search w (join '' '' (filter (\<lambda>s. s \<noteq> []) [t, a])) = Ok data"
      using fetchEpisodesForTrack_Inr by blast
    from fetchEpisodesForTrack_Ok [OF this, of seen] e m show ?thesis
      by (auto dest: unseen_take)
  next
    assume e: "fetchEpisodesForGenre w g seen = Inr eps"
    then obtain data where "nts_genre_episodes w g = Ok data"
      using fetchEpisodesForGenre_Inr by blast
    from fetchEpisodesForGenre_Ok [OF this, of seen] e m show ?thesis
      by (auto dest: unseen_take)
  qed
next
  fix eps
  assume e: "fetchEpisodesForTrack w a t seen = Inr eps"
  then obtain data where "nts_search w (join '' '' (filter (\<lambda>s. s \<noteq> []) [t, a])) = Ok data"
    using fetchEpisodesForTrack_Inr by blast
  from fetchEpisodesForTrack_Ok [OF this, of seen] e
  have "eps = map (\<lambda>r. \<lparr>path = article_path r, ep_title = article_title r,
                            ep_airDate = local_date r, ep_source = TrackSource a t\<rparr>)
                  (take 5 (filter (\<lambda>r. article_path r \<notin> set seen)
                     (sort_key (\<lambda>r. - local_date r) (results_or_empty data))))"
    by simp
  then show "sorted_wrt (\<lambda>x y. ep_airDate y \<le> ep_airDate x) eps"
    by (simp add: sorted_wrt_map sorted_wrt_take_filter sorted_desc)
qed

text \<open>
  The witness: the search for \<open>Y X\<close> returns seven episodes out of date order, \<open>/3\<close> is
  seen; the track seed gets the five newest unseen ones, the genre seed the first five
  unseen ones in the order returned.
\<close>

theorem per_seed_resolution_witness:
  "nts_search demo_world (join '' '' (filter (\<lambda>s. s \<noteq> []) [''Y'', ''X'']))
     = Ok (Some demo_results)
   \<and> nts_genre_episodes demo_world ''house'' = Ok (Some demo_results)
   \<and> fetchEpisodesForTrack demo_world ''X'' ''Y'' [''/3''] =
       Inr [track_episode ''/5'' 5, track_episode ''/6'' 4, track_episode ''/2'' 3,
            track_episode ''/4'' 3, track_episode ''/1'' 1]
   \<and> fetchEpisodesForGenre demo_world ''house'' [''/3''] =
       Inr [genre_episode ''/1'' 1, genre_episode ''/2'' 3, genre_episode ''/4'' 3,
            genre_episode ''/5'' 5, genre_episode ''/6'' 4]"
proof -
  have s: "nts_search demo_world (join '' '' (filter (\<lambda>s. s \<noteq> []) [''Y'', ''X'']))
             = Ok (Some demo_results)"
    by (simp add: demo_search)
  have g: "nts_genre_episodes demo_world ''house'' = Ok (Some demo_results)"
    by (rule demo_genre)
  note inst = per_seed_resolution [of demo_world "''Y''" "''X''" "[''/3'']" "''house''"]
  from inst s have "fetchEpisodesForTrack demo_world ''X'' ''Y'' [''/3''] =
      Inr (map (\<lambda>r. \<lparr>path = article_path r, ep_title = article_title r,
                       ep_airDate = local_date r, ep_source = TrackSource ''X'' ''Y''\<rparr>)
             (take 5 (filter (\<lambda>r. article_path r \<notin> set [''/3''])
                (sort_key (\<lambda>r. - local_date r) (results_or_empty (Some demo_results))))))"
    unfolding Let_def by blast
  then have t: "fetchEpisodesForTrack demo_world ''X'' ''Y'' [''/3''] =
       Inr [track_episode ''/5'' 5, track_episode ''/6'' 4, track_episode ''/2'' 3,
            track_episode ''/4'' 3, track_episode ''/1'' 1]"
    by (simp add: results_or_empty_def demo_newest_first demo_result_def track_episode_def)
  from inst g have "fetchEpisodesForGenre demo_world ''house'' [''/3''] =
      Inr (map (\<lambda>e. \<lparr>path = article_path e, ep_title = result_title e,
                       ep_airDate = local_date e, ep_source = GenreSource ''house''\<rparr>)
             (take 5 (filter (\<lambda>e. article_path e \<notin> set [''/3''])
                (results_or_empty (Some demo_results)))))"
    by blast
  then have "fetchEpisodesForGenre demo_world ''house'' [''/3''] =
       Inr [genre_episode ''/1'' 1, genre_episode ''/2'' 3, genre_episode ''/4'' 3,
            genre_episode ''/5'' 5, genre_episode ''/6'' 4]"
    by (simp add: results_or_empty_def demo_results_def demo_result_def genre_episode_def)
  with s g t show ?thesis by blast
qed

text \<open>
  For the genre seed the episodes are not sorted: the dates come back as 1, 3, 3, 5, 4,
  where sorting first would give 5, 4, 3, 3, 1.
\<close>

theorem genre_seed_unsorted_counterexample:
  "map ep_airDate (catch [] (fetchEpisodesForGenre demo_world ''house'' [''/3'']))
     = [1, 3, 3, 5, 4]
   \<and> map local_date
       (take 5 (filter (\<lambda>r. article_path r \<notin> set [''/3''])
          (sort_key (\<lambda>r. - local_date r) demo_results)))
     = [5, 4, 3, 3, 1]
   \<and> \<not> sorted_wrt (\<lambda>x y. ep_airDate y \<le> ep_airDate x)
         (catch [] (fetchEpisodesForGenre demo_world ''house'' [''/3'']))"
  by (simp add: demo_genre_seed catch_def genre_episode_def demo_newest_first demo_result_def)

section \<open>Unique episodes\<close>

lemma new_Set_first: "new_Set ks = rev (remdups (rev ks))"
proof (induction ks rule: rev_induct)
  case Nil
  show ?case by (simp add: new_Set_def)
next
  case (snoc k ks)
  then show ?case by (auto simp: new_Set_snoc set_add_def)
qed

lemma fst_map_set: "map fst (map_set k v m) = set_add k (map fst m)"
  by (induction m) (force simp: set_add_def)+

lemma new_Map_snoc: "new_Map (es @ [(k, v)]) = map_set k v (new_Map es)"
  by (simp add: new_Map_def)

lemma keys_new_Map: "map fst (new_Map es) = new_Set (map fst es)"
proof (induction es rule: rev_induct)
  case Nil
  show ?case by (simp add: new_Map_def new_Set_def)
next
  case (snoc e es)
  then show ?case by (cases e) (simp add: new_Map_snoc new_Set_snoc fst_map_set)
qed

lemma map_of_map_set: "map_of (map_set k v m) = (map_of m)(k \<mapsto> v)"
  by (induction m) auto

lemma map_of_new_Map: "map_of (new_Map es) = map_of (rev es)"
proof (induction es rule: rev_induct)
  case Nil
  show ?case by (simp add: new_Map_def)
next
  case (snoc e es)
  then show ?case by (cases e) (simp add: new_Map_snoc map_of_map_set)
qed

lemma map_of_rev_last:
  "map_of (rev (map (\<lambda>x. (f x, x)) xs)) k = Some e
   \<longleftrightarrow> filter (\<lambda>x. f x = k) xs \<noteq> [] \<and> e = last (filter (\<lambda>x. f x = k) xs)"
  by (induction xs rule: rev_induct) auto

lemma set_map_set: "set (map_set k v m) \<subseteq> insert (k, v) (set m)"
  by (induction m) (auto split: if_splits)

lemma set_new_Map: "set (new_Map es) \<subseteq> set es"
proof (induction es rule: rev_induct)
  case Nil
  show ?case by (simp add: new_Map_def)
next
  case (snoc e es)
  then show ?case
    using set_map_set [of "fst e" "snd e" "new_Map es"]
    by (cases e) (auto simp: new_Map_snoc)
qed

lemma distinct_keys_new_Map: "distinct (map fst (new_Map es))"
  by (simp add: keys_new_Map new_Set_first)

lemma uniqueEpisodes_member:
  assumes "e \<in> set (uniqueEpisodes eps)"
  shows "filter (\<lambda>x. path x = path e) eps \<noteq> [] \<and> e = last (filter (\<lambda>x. path x = path e) eps)"
proof -
  let ?m = "new_Map (map (\<lambda>ep. (path ep, ep)) eps)"
  from assms obtain k where k: "(k, e) \<in> set ?m"
    by (auto simp: uniqueEpisodes_def map_values_def)
  have "map_of ?m k = Some e"
    by (rule map_of_is_SomeI [OF distinct_keys_new_Map k])
  then have l: "filter (\<lambda>x. path x = k) eps \<noteq> [] \<and> e = last (filter (\<lambda>x. path x = k) eps)"
    by (simp add: map_of_new_Map rev_map [symmetric] map_of_rev_last)
  then have "e \<in> set (filter (\<lambda>x. path x = k) eps)"
    using last_in_set by metis
  then have "path e = k" by simp
  with l show ?thesis by simp
qed

text \<open>
  C5, as the code has it. The unique episodes have one entry for every path, in the
  order in which the paths first occur; the episode kept for a path is the last one with
  that path in the concatenated list, so its source is that of the latest seed that
  yielded it.
\<close>

theorem uniqueEpisodes_last_wins:
  "map path (uniqueEpisodes eps) = rev (remdups (rev (map path eps)))
   \<and> distinct (map path (uniqueEpisodes eps))
   \<and> set (map path (uniqueEpisodes eps)) = set (map path eps)
   \<and> (\<forall>e \<in> set (uniqueEpisodes eps).
         e \<in> set eps \<and> e = last (filter (\<lambda>x. path x = path e) eps))"
proof (intro conjI ballI)
  have "\<forall>p \<in> set (new_Map (map (\<lambda>ep. (path ep, ep)) eps)). path (snd p) = fst p"
    using set_new_Map [of "map (\<lambda>ep. (path ep, ep)) eps"] by auto
  then have "map path (uniqueEpisodes eps) = map fst (new_Map (map (\<lambda>ep. (path ep, ep)) eps))"
    by (simp add: uniqueEpisodes_def map_values_def)
  then show p: "map path (uniqueEpisodes eps) = rev (remdups (rev (map path eps)))"
    by (simp add: keys_new_Map new_Set_first comp_def)
  show "distinct (map path (uniqueEpisodes eps))" unfolding p by simp
  show "set (map path (uniqueEpisodes eps)) = set (map path eps)" unfolding p by simp
next
  fix e
  assume e: "e \<in> set (uniqueEpisodes eps)"
  from uniqueEpisodes_member [OF e]
  have l: "filter (\<lambda>x. path x = path e) eps \<noteq> []" "e = last (filter (\<lambda>x. path x = path e) eps)"
    by simp_all
  then have "e \<in> set (filter (\<lambda>x. path x = path e) eps)"
    using last_in_set by metis
  then show "e \<in> set eps" by simp
  show "e = last (filter (\<lambda>x. path x = path e) eps)" by (rule l)
qed

text \<open>
  The witness: in the example the five paths come out in first-occurrence order, and the
  episode kept for \<open>/5\<close> is the last of the two episodes with that path.
\<close>

theorem uniqueEpisodes_last_wins_witness:
  "map path (uniqueEpisodes (allEpisodes demo_world demo_request))
     = [''/5'', ''/6'', ''/2'', ''/4'', ''/1'']
   \<and> genre_episode ''/5'' 5 \<in> set (uniqueEpisodes (allEpisodes demo_world demo_request))
   \<and> genre_episode ''/5'' 5
       = last (filter (\<lambda>x. path x = ''/5'') (allEpisodes demo_world demo_request))"
proof -
  note inst = uniqueEpisodes_last_wins [of "allEpisodes demo_world demo_request"]
  have m: "genre_episode ''/5'' 5 \<in> set (uniqueEpisodes (allEpisodes demo_world demo_request))"
    by (simp add: demo_uniqueEpisodes)
  from inst have "map path (uniqueEpisodes (allEpisodes demo_world demo_request))
     = rev (remdups (rev (map path (allEpisodes demo_world demo_request))))"
    by blast
  then have p: "map path (uniqueEpisodes (allEpisodes demo_world demo_request))
     = [''/5'', ''/6'', ''/2'', ''/4'', ''/1'']"
    by (simp add: demo_allEpisodes track_episode_def genre_episode_def)
  from inst m have "genre_episode ''/5'' 5
       = last (filter (\<lambda>x. path x = path (genre_episode ''/5'' 5))
                 (allEpisodes demo_world demo_request))"
    by blast
  then have "genre_episode ''/5'' 5
       = last (filter (\<lambda>x. path x = ''/5'') (allEpisodes demo_world demo_request))"
    by (simp add: genre_episode_def)
  with p m show ?thesis by blast
qed

text \<open>
  The first occurrence does not win: episode \<open>/5\<close> is first yielded by the track seed,
  which comes first, and the episode kept is the one of the genre seed.
\<close>

theorem uniqueEpisodes_first_wins_counterexample:
  "find (\<lambda>e. path e = ''/5'') (allEpisodes demo_world demo_request)
     = Some (track_episode ''/5'' 5)
   \<and> find (\<lambda>e. path e = ''/5'') (uniqueEpisodes (allEpisodes demo_world demo_request))
     = Some (genre_episode ''/5'' 5)
   \<and> ep_source (track_episode ''/5'' 5) = TrackSource ''X'' ''Y''
   \<and> ep_source (genre_episode ''/5'' 5) = GenreSource ''house''"
  unfolding demo_uniqueEpisodes
  unfolding demo_allEpisodes
  by (simp add: track_episode_def genre_episode_def)

section \<open>Collecting the tracks\<close>

lemma foldl_push_track:
  "foldl (push_track referenced ep) acc trs =
     acc @ map (\<lambda>t. \<lparr>uid = uid t, artist = artist t, title = title t,
                      episodePath = episodePath t, episodeTitle = ep_title ep,
                      airDate = ep_airDate ep, source = ep_source ep\<rparr>)
             (filter (\<lambda>t. uid t \<notin> set referenced) trs)"
  by (induction trs arbitrary: acc) (simp_all add: push_track_def)

lemma foldl_collect:
  "foldl (\<lambda>allTracks (ep, trs). foldl (push_track referenced ep) allTracks trs) acc results =
     acc @ concat (map (\<lambda>(ep, trs).
                     map (\<lambda>t. \<lparr>uid = uid t, artist = artist t, title = title t,
                                  episodePath = episodePath t, episodeTitle = ep_title ep,
                                  airDate = ep_airDate ep, source = ep_source ep\<rparr>)
                       (filter (\<lambda>t. uid t \<notin> set referenced) trs)) results)"
  by (induction results arbitrary: acc) (auto simp: foldl_push_track)

lemma count_uid_collected:
  "length (filter (\<lambda>t. uid t = u)
      (concat (map (\<lambda>(ep, trs).
                     map (\<lambda>t. \<lparr>uid = uid t, artist = artist t, title = title t,
                                  episodePath = episodePath t, episodeTitle = ep_title ep,
                                  airDate = ep_airDate ep, source = ep_source ep\<rparr>)
                       (filter (\<lambda>t. uid t \<notin> set referenced) trs)) results)))
   = (if u \<in> set referenced then 0
      else length (filter (\<lambda>t. uid t = u) (concat (map snd results))))"
proof (induction results)
  case Nil
  show ?case by simp
next
  case (Cons r results)
  obtain ep trs where r: "r = (ep, trs)" by (cases r)
  have "length (filter (\<lambda>t. uid t = u)
          (map (\<lambda>t. \<lparr>uid = uid t, artist = artist t, title = title t,
                      episodePath = episodePath t, episodeTitle = ep_title ep,
                      airDate = ep_airDate ep, source = ep_source ep\<rparr>)
             (filter (\<lambda>t. uid t \<notin> set referenced) trs)))
        = (if u \<in> set referenced then 0 else length (filter (\<lambda>t. uid t = u) trs))"
    by (induction trs) auto
  with Cons r show ?case by simp
qed

text \<open>
  C2, as the code has it. The collected tracks are, episode by episode in the order of
  the unique episodes and track by track in the order of each tracklist, all the fetched
  tracks whose uid is not referenced, each with the title, date and source of the
  episode it was fetched from. Nothing is deduplicated: a uid that is not referenced
  occurs in the collected tracks as often as it occurs in the tracklists.
\<close>

theorem collectTracks_keeps_every_occurrence:
  "collectTracks referenced results =
     concat (map (\<lambda>(ep, trs).
                    map (\<lambda>t. \<lparr>uid = uid t, artist = artist t, title = title t,
                                 episodePath = episodePath t, episodeTitle = ep_title ep,
                                 airDate = ep_airDate ep, source = ep_source ep\<rparr>)
                      (filter (\<lambda>t. uid t \<notin> set referenced) trs)) results)
   \<and> length (filter (\<lambda>t. uid t = u) (collectTracks referenced results))
       = (if u \<in> set referenced then 0
          else length (filter (\<lambda>t. uid t = u) (concat (map snd results))))"
proof -
  have c: "collectTracks referenced results =
     concat (map (\<lambda>(ep, trs).
                    map (\<lambda>t. \<lparr>uid = uid t, artist = artist t, title = title t,
                                 episodePath = episodePath t, episodeTitle = ep_title ep,
                                 airDate = ep_airDate ep, source = ep_source ep\<rparr>)
                      (filter (\<lambda>t. uid t \<notin> set referenced) trs)) results)"
    by (simp add: collectTracks_def foldl_collect)
  show ?thesis
    unfolding c using count_uid_collected [of u referenced results] by simp
qed

lemma demo_tracklistResults:
  "tracklistResults demo_world
     [genre_episode ''/5'' 5, genre_episode ''/6'' 4, genre_episode ''/2'' 3,
      genre_episode ''/4'' 3, genre_episode ''/1'' 1] =
     [(genre_episode ''/5'' 5,
        [\<lparr>uid = ''u1'', artist = ''X'', title = ''Y'', episodePath = ''/5''\<rparr>,
         \<lparr>uid = ''u2'', artist = ''P'', title = ''Q'', episodePath = ''/5''\<rparr>]),
      (genre_episode ''/6'' 4,
        [\<lparr>uid = ''u1'', artist = ''X'', title = ''Y'', episodePath = ''/6''\<rparr>]),
      (genre_episode ''/2'' 3, []),
      (genre_episode ''/4'' 3, []),
      (genre_episode ''/1'' 1, [])]"
  by (simp add: tracklistResults_def fetchTracklist_def demo_world_def
      genre_episode_def catch_def results_or_empty_def)

lemma demo_allTracks:
  "allTracks demo_world demo_request =
     [demo_collected ''u1'' ''X'' ''Y'' ''/5'' 5, demo_collected ''u2'' ''P'' ''Q'' ''/5'' 5,
      demo_collected ''u1'' ''X'' ''Y'' ''/6'' 4]"
  unfolding allTracks_def demo_uniqueEpisodes demo_tracklistResults
  by (simp add: collectTracks_def push_track_def demo_request_def genre_episode_def
      demo_collected_def)

text \<open>
  Two episodes of the example list the same track \<open>u1\<close> (artist \<open>X\<close>, title \<open>Y\<close>), and
  the track is collected twice, once for each episode.
\<close>

theorem collectTracks_dedup_counterexample:
  "map uid (allTracks demo_world demo_request) = [''u1'', ''u2'', ''u1'']
   \<and> map (\<lambda>t. (artist t, title t)) (allTracks demo_world demo_request)
       = [(''X'', ''Y''), (''P'', ''Q''), (''X'', ''Y'')]
   \<and> map episodePath (allTracks demo_world demo_request) = [''/5'', ''/5'', ''/6'']
   \<and> \<not> distinct (map uid (allTracks demo_world demo_request))"
  by (simp add: demo_allTracks demo_collected_def)

section \<open>Enrichment\<close>

lemma promise_all_map_Inr: "promise_all (map Inr vs) = Inr vs"
  by (induction vs) simp_all

lemma promise_all_Inr_D: "promise_all rs = Inr vs \<Longrightarrow> rs = map Inr vs"
proof (induction rs arbitrary: vs)
  case Nil
  then show ?case by simp
next
  case (Cons r rs)
  show ?case
  proof (cases r)
    case (Inl e)
    with Cons.prems show ?thesis by simp
  next
    case (Inr v)
    with Cons.prems obtain vs' where "promise_all rs = Inr vs'" and "vs = v # vs'"
      by (auto split: sum.splits)
    with Cons.IH [of vs'] Inr show ?thesis by simp
  qed
qed

lemma promise_all_Inr_iff: "promise_all rs = Inr vs \<longleftrightarrow> rs = map Inr vs"
  using promise_all_Inr_D promise_all_map_Inr by metis

lemma promise_all_isl: "isl (promise_all rs) \<longleftrightarrow> (\<exists>r \<in> set rs. isl r)"
proof (induction rs)
  case Nil
  show ?case by simp
next
  case (Cons r rs)
  then show ?case by (cases r) (auto split: sum.splits)
qed

lemma searchSpotifyTrack_cases:
  "searchSpotifyTrack w n a t tok =
     (case spotify_search w n tok (a @ '' '' @ t) of
        Rejected \<Rightarrow> Inl ''fetch failed''
      | NotOk status \<Rightarrow> Inr None
      | Ok [] \<Rightarrow> Inr None
      | Ok (item # rest) \<Rightarrow>
          Inr (Some \<lparr>sp_id = item_id item, sp_uri = item_uri item,
                     sp_url = item_external_url item, sp_name = item_name item,
                     sp_artist = (case item_artists item of
                                    [] \<Rightarrow> a
                                  | x # others \<Rightarrow> if x = [] then a else x)\<rparr>))"
  by (simp add: searchSpotifyTrack_def Let_def split: response.splits list.splits)

lemma searchSpotifyTrack_isl:
  "isl (searchSpotifyTrack w n a t tok) \<longleftrightarrow> spotify_search w n tok (a @ '' '' @ t) = Rejected"
  by (simp add: searchSpotifyTrack_cases split: response.splits list.splits)

lemma truncate_with_spotify: "collected_track.truncate (with_spotify t sp) = t"
  by (simp add: with_spotify_def collected_track.truncate_def)

lemma case_sum_Inr_iff:
  "(case s of Inl err \<Rightarrow> Inl err | Inr d \<Rightarrow> Inr (f d)) = Inr y \<longleftrightarrow> (\<exists>sp. s = Inr sp \<and> y = f sp)"
  by (cases s) auto

lemma enrichTracks_Inr:
  "enrichTracks w tok ts = Inr out \<longleftrightarrow>
     length out = length ts
     \<and> (\<forall>n < length ts. \<exists>sp.
           searchSpotifyTrack w n (artist (ts ! n)) (title (ts ! n)) tok = Inr sp
           \<and> out ! n = with_spotify (ts ! n) sp)"
proof -
  have "enrichTracks w tok ts = Inr out \<longleftrightarrow>
     map (\<lambda>(n, track).
               case searchSpotifyTrack w n (artist track) (title track) tok of
                 Inl err \<Rightarrow> Inl err
               | Inr spotifyData \<Rightarrow> Inr (with_spotify track spotifyData))
          (enumerate 0 ts) = map Inr out"
    by (simp add: enrichTracks_def promise_all_Inr_iff)
  also have "\<dots> \<longleftrightarrow> length out = length ts
     \<and> (\<forall>n < length ts.
           (case searchSpotifyTrack w n (artist (ts ! n)) (title (ts ! n)) tok of
                 Inl err \<Rightarrow> Inl err
               | Inr spotifyData \<Rightarrow> Inr (with_spotify (ts ! n) spotifyData)) = Inr (out ! n))"
    by (auto simp: list_eq_iff_nth_eq nth_enumerate_eq)
  also have "\<dots> \<longleftrightarrow> length out = length ts
     \<and> (\<forall>n < length ts. \<exists>sp.
           searchSpotifyTrack w n (artist (ts ! n)) (title (ts ! n)) tok = Inr sp
           \<and> out ! n = with_spotify (ts ! n) sp)"
    by (simp add: case_sum_Inr_iff)
  finally show ?thesis .
qed

lemma isl_case_sum: "isl (case s of Inl err \<Rightarrow> Inl err | Inr d \<Rightarrow> Inr (f d)) = isl s"
  by (cases s) auto

lemma enrichTracks_isl:
  "isl (enrichTracks w tok ts) \<longleftrightarrow>
     (\<exists>n < length ts. spotify_search w n tok (artist (ts ! n) @ '' '' @ title (ts ! n)) = Rejected)"
proof -
  have "isl (enrichTracks w tok ts) \<longleftrightarrow>
     (\<exists>p \<in> set (enumerate 0 ts).
        isl (searchSpotifyTrack w (fst p) (artist (snd p)) (title (snd p)) tok))"
    by (simp add: enrichTracks_def promise_all_isl case_prod_beta isl_case_sum)
  also have "\<dots> \<longleftrightarrow>
     (\<exists>n < length ts. isl (searchSpotifyTrack w n (artist (ts ! n)) (title (ts ! n)) tok))"
  proof
    assume "\<exists>p \<in> set (enumerate 0 ts).
        isl (searchSpotifyTrack w (fst p) (artist (snd p)) (title (snd p)) tok)"
    then obtain p where "p \<in> set (enumerate 0 ts)"
      and "isl (searchSpotifyTrack w (fst p) (artist (snd p)) (title (snd p)) tok)"
      by blast
    then show "\<exists>n < length ts.
        isl (searchSpotifyTrack w n (artist (ts ! n)) (title (ts ! n)) tok)"
      by (auto simp: in_set_enumerate_eq)
  next
    assume "\<exists>n < length ts.
        isl (searchSpotifyTrack w n (artist (ts ! n)) (title (ts ! n)) tok)"
    then obtain n where n: "n < length ts"
      and i: "isl (searchSpotifyTrack w n (artist (ts ! n)) (title (ts ! n)) tok)"
      by blast
    from n have "(n, ts ! n) \<in> set (enumerate 0 ts)"
      by (simp add: in_set_enumerate_eq)
    with i show "\<exists>p \<in> set (enumerate 0 ts).
        isl (searchSpotifyTrack w (fst p) (artist (snd p)) (title (snd p)) tok)"
      by force
  qed
  finally show ?thesis by (simp add: searchSpotifyTrack_isl)
qed

lemma enrichStep_token:
  "getSpotifyToken w = Inr tok \<Longrightarrow> enrichStep w ts = enrichTracks w tok ts"
  "getSpotifyToken w = Inl err \<Longrightarrow> enrichStep w ts = Inl err"
  by (simp_all add: enrichStep_def)

text \<open>
  C6, as the code has it. When the token request fails, the enrichment step fails as a
  whole. When the token is obtained and no search request is rejected, the step returns a
  list of the same length and order; track \<open>n\<close> is the input track \<open>n\<close> with the
  \<open>spotify\<close> field added, and that field is filled exactly when search number \<open>n\<close>, the
  only search made for that track, answers with at least one item; it is empty when that
  search answers with a failure status or with no item.
\<close>

theorem enrichStep_spotify_field:
  "(\<forall>err. getSpotifyToken w = Inl err \<longrightarrow> enrichStep w ts = Inl err)
   \<and> (\<forall>tok. getSpotifyToken w = Inr tok
          \<and> (\<forall>n < length ts.
                spotify_search w n tok (artist (ts ! n) @ '' '' @ title (ts ! n)) \<noteq> Rejected)
        \<longrightarrow> (\<exists>out. enrichStep w ts = Inr out
               \<and> length out = length ts
               \<and> (\<forall>n < length ts.
                     collected_track.truncate (out ! n) = ts ! n
                   \<and> spotify (out ! n) =
                       (case spotify_search w n tok (artist (ts ! n) @ '' '' @ title (ts ! n)) of
                          Ok (item # rest) \<Rightarrow>
                            Some \<lparr>sp_id = item_id item, sp_uri = item_uri item,
                                  sp_url = item_external_url item, sp_name = item_name item,
                                  sp_artist = (case item_artists item of
                                                 [] \<Rightarrow> artist (ts ! n)
                                               | x # others \<Rightarrow>
                                                   if x = [] then artist (ts ! n) else x)\<rparr>
                        | _ \<Rightarrow> None)
                   \<and> (spotify (out ! n) \<noteq> None \<longleftrightarrow>
                        (\<exists>item rest.
                           spotify_search w n tok (artist (ts ! n) @ '' '' @ title (ts ! n))
                             = Ok (item # rest))))))"
proof (intro conjI allI impI)
  fix err
  assume "getSpotifyToken w = Inl err"
  then show "enrichStep w ts = Inl err" by (rule enrichStep_token)
next
  fix tok
  assume a: "getSpotifyToken w = Inr tok
          \<and> (\<forall>n < length ts.
                spotify_search w n tok (artist (ts ! n) @ '' '' @ title (ts ! n)) \<noteq> Rejected)"
  then have "\<not> isl (enrichTracks w tok ts)"
    by (simp add: enrichTracks_isl)
  then obtain out where out: "enrichTracks w tok ts = Inr out"
    by (cases "enrichTracks w tok ts") auto
  then have len: "length out = length ts"
    and nth: "\<forall>n < length ts. \<exists>sp.
           searchSpotifyTrack w n (artist (ts ! n)) (title (ts ! n)) tok = Inr sp
           \<and> out ! n = with_spotify (ts ! n) sp"
    by (simp_all add: enrichTracks_Inr)
  have big: "\<forall>n < length ts.
          collected_track.truncate (out ! n) = ts ! n
        \<and> spotify (out ! n) =
            (case spotify_search w n tok (artist (ts ! n) @ '' '' @ title (ts ! n)) of
               Ok (item # rest) \<Rightarrow>
                 Some \<lparr>sp_id = item_id item, sp_uri = item_uri item,
                       sp_url = item_external_url item, sp_name = item_name item,
                       sp_artist = (case item_artists item of
                                      [] \<Rightarrow> artist (ts ! n)
                                    | x # others \<Rightarrow>
                                        if x = [] then artist (ts ! n) else x)\<rparr>
             | _ \<Rightarrow> None)
        \<and> (spotify (out ! n) \<noteq> None \<longleftrightarrow>
             (\<exists>item rest.
                spotify_search w n tok (artist (ts ! n) @ '' '' @ title (ts ! n))
                  = Ok (item # rest)))"
  proof (intro allI impI)
    fix n
    assume n: "n < length ts"
    with nth obtain sp where
      sp: "searchSpotifyTrack w n (artist (ts ! n)) (title (ts ! n)) tok = Inr sp"
      and o: "out ! n = with_spotify (ts ! n) sp"
      by blast
    from sp have v: "sp =
            (case spotify_search w n tok (artist (ts ! n) @ '' '' @ title (ts ! n)) of
               Ok (item # rest) \<Rightarrow>
                 Some \<lparr>sp_id = item_id item, sp_uri = item_uri item,
                       sp_url = item_external_url item, sp_name = item_name item,
                       sp_artist = (case item_artists item of
                                      [] \<Rightarrow> artist (ts ! n)
                                    | x # others \<Rightarrow>
                                        if x = [] then artist (ts ! n) else x)\<rparr>
             | _ \<Rightarrow> None)"
      by (auto simp: searchSpotifyTrack_cases split: response.splits list.splits)
    have s: "spotify (out ! n) = sp"
      by (simp add: o with_spotify_def)
    show "collected_track.truncate (out ! n) = ts ! n
        \<and> spotify (out ! n) =
            (case spotify_search w n tok (artist (ts ! n) @ '' '' @ title (ts ! n)) of
               Ok (item # rest) \<Rightarrow>
                 Some \<lparr>sp_id = item_id item, sp_uri = item_uri item,
                       sp_url = item_external_url item, sp_name = item_name item,
                       sp_artist = (case item_artists item of
                                      [] \<Rightarrow> artist (ts ! n)
                                    | x # others \<Rightarrow>
                                        if x = [] then artist (ts ! n) else x)\<rparr>
             | _ \<Rightarrow> None)
        \<and> (spotify (out ! n) \<noteq> None \<longleftrightarrow>
             (\<exists>item rest.
                spotify_search w n tok (artist (ts ! n) @ '' '' @ title (ts ! n))
                  = Ok (item # rest)))"
      unfolding s using v
      by (auto simp: o truncate_with_spotify split: response.splits list.splits)
  qed
  have es: "enrichStep w ts = Inr out"
    using a out by (simp add: enrichStep_token)
  from es len big show "\<exists>out. enrichStep w ts = Inr out
               \<and> length out = length ts
               \<and> (\<forall>n < length ts.
                     collected_track.truncate (out ! n) = ts ! n
                   \<and> spotify (out ! n) =
                       (case spotify_search w n tok (artist (ts ! n) @ '' '' @ title (ts ! n)) of
                          Ok (item # rest) \<Rightarrow>
                            Some \<lparr>sp_id = item_id item, sp_uri = item_uri item,
                                  sp_url = item_external_url item, sp_name = item_name item,
                                  sp_artist = (case item_artists item of
                                                 [] \<Rightarrow> artist (ts ! n)
                                               | x # others \<Rightarrow>
                                                   if x = [] then artist (ts ! n) else x)\<rparr>
                        | _ \<Rightarrow> None)
                   \<and> (spotify (out ! n) \<noteq> None \<longleftrightarrow>
                        (\<exists>item rest.
                           spotify_search w n tok (artist (ts ! n) @ '' '' @ title (ts ! n))
                             = Ok (item # rest))))"
    by blast
qed

lemma demo_token: "getSpotifyToken demo_world = Inr ''token''"
  by (simp add: getSpotifyToken_def demo_world_def)

lemma demo_not_rejected: "spotify_search demo_world n tok q \<noteq> Rejected"
  by (simp add: demo_world_def)

lemma demo_enrichStep:
  "enrichStep demo_world (allTracks demo_world demo_request) =
     Inr [with_spotify (demo_collected ''u1'' ''X'' ''Y'' ''/5'' 5)
            (Some \<lparr>sp_id = ''sp1'', sp_uri = ''spotify:track:sp1'',
                    sp_url = ''https://open.spotify.com/track/sp1'',
                    sp_name = ''Y'', sp_artist = ''X''\<rparr>),
          with_spotify (demo_collected ''u2'' ''P'' ''Q'' ''/5'' 5) None,
          with_spotify (demo_collected ''u1'' ''X'' ''Y'' ''/6'' 4) None]"
  unfolding demo_allTracks
  by (simp add: enrichStep_def getSpotifyToken_def enrichTracks_def searchSpotifyTrack_def
      demo_world_def demo_item_def demo_collected_def)

text \<open>
  The witness: the three collected tracks of the example. The first search finds
  \<open>X Y\<close>, the second finds nothing, and the third, again for \<open>X Y\<close>, answers 429 and
  is not repeated.
\<close>

theorem enrichStep_spotify_field_witness:
  "getSpotifyToken demo_world = Inr ''token''
   \<and> length (allTracks demo_world demo_request) = 3
   \<and> length (projr (enrichStep demo_world (allTracks demo_world demo_request))) = 3
   \<and> map spotify (projr (enrichStep demo_world (allTracks demo_world demo_request)))
       = [Some \<lparr>sp_id = ''sp1'', sp_uri = ''spotify:track:sp1'',
                 sp_url = ''https://open.spotify.com/track/sp1'',
                 sp_name = ''Y'', sp_artist = ''X''\<rparr>,
          None, None]"
proof -
  let ?ts = "allTracks demo_world demo_request"
  have tok: "getSpotifyToken demo_world = Inr ''token''"
    by (rule demo_token)
  have len: "length ?ts = 3"
    by (simp add: demo_allTracks)
  have ok: "\<forall>n < length ?ts.
      spotify_search demo_world n ''token'' (artist (?ts ! n) @ '' '' @ title (?ts ! n))
        \<noteq> Rejected"
    by (simp add: demo_not_rejected)
  from enrichStep_spotify_field [of demo_world ?ts] tok ok
  obtain out where out: "enrichStep demo_world ?ts = Inr out"
    and l: "length out = length ?ts"
    and f: "\<forall>n < length ?ts.
              spotify (out ! n) =
                (case spotify_search demo_world n ''token''
                        (artist (?ts ! n) @ '' '' @ title (?ts ! n)) of
                   Ok (item # rest) \<Rightarrow>
                     Some \<lparr>sp_id = item_id item, sp_uri = item_uri item,
                           sp_url = item_external_url item, sp_name = item_name item,
                           sp_artist = (case item_artists item of
                                          [] \<Rightarrow> artist (?ts ! n)
                                        | x # others \<Rightarrow>
                                            if x = [] then artist (?ts ! n) else x)\<rparr>
                 | _ \<Rightarrow> None)"
    by blast
  from l len have l3: "length out = 3" by simp
  have n0: "(0::nat) < length ?ts" and n1: "(1::nat) < length ?ts" and n2: "(2::nat) < length ?ts"
    using len by simp_all
  have s0: "spotify (out ! 0) = Some \<lparr>sp_id = ''sp1'', sp_uri = ''spotify:track:sp1'',
                 sp_url = ''https://open.spotify.com/track/sp1'',
                 sp_name = ''Y'', sp_artist = ''X''\<rparr>"
    unfolding f [rule_format, OF n0]
    unfolding demo_allTracks
    by (simp add: demo_collected_def demo_world_def demo_item_def)
  have s1: "spotify (out ! 1) = None"
    unfolding f [rule_format, OF n1]
    unfolding demo_allTracks
    by (simp add: demo_collected_def demo_world_def)
  have s2: "spotify (out ! 2) = None"
    unfolding f [rule_format, OF n2]
    unfolding demo_allTracks
    by (simp add: demo_collected_def demo_world_def)
  from l3 obtain a b c where "out = [a, b, c]"
    by (auto simp: length_Suc_conv numeral_3_eq_3)
  then have "map spotify out = [spotify (out ! 0), spotify (out ! 1), spotify (out ! 2)]"
    by simp
  with s0 s1 s2 have "map spotify out
       = [Some \<lparr>sp_id = ''sp1'', sp_uri = ''spotify:track:sp1'',
                 sp_url = ''https://open.spotify.com/track/sp1'',
                 sp_name = ''Y'', sp_artist = ''X''\<rparr>,
          None, None]"
    by simp
  with tok len l3 show ?thesis by (simp add: out)
qed

lemma no_token: "getSpotifyToken no_token_world = Inl ''Failed to get Spotify token''"
  by (simp add: getSpotifyToken_def no_token_world_def demo_world_def)

text \<open>
  The enrichment step does not always return a list: when the token request answers 401
  the step fails before any search; and when the search for one track is rejected, the
  step fails for all three tracks.
\<close>

theorem enrichStep_fails_counterexample:
  "enrichStep no_token_world (allTracks demo_world demo_request)
     = Inl ''Failed to get Spotify token''
   \<and> getSpotifyToken flaky_world = Inr ''token''
   \<and> spotify_search flaky_world 0 ''token'' ''X Y'' = Ok []
   \<and> spotify_search flaky_world 1 ''token'' ''P Q'' = Rejected
   \<and> spotify_search flaky_world 2 ''token'' ''X Y'' = Ok []
   \<and> enrichStep flaky_world (allTracks demo_world demo_request) = Inl ''fetch failed''"
proof -
  have t: "getSpotifyToken flaky_world = Inr ''token''"
    by (simp add: getSpotifyToken_def flaky_world_def demo_world_def)
  have s: "spotify_search flaky_world 0 ''token'' ''X Y'' = Ok []"
    "spotify_search flaky_world 1 ''token'' ''P Q'' = Rejected"
    "spotify_search flaky_world 2 ''token'' ''X Y'' = Ok []"
    by (simp_all add: flaky_world_def)
  have "enrichStep flaky_world (allTracks demo_world demo_request) = Inl ''fetch failed''"
    unfolding demo_allTracks enrichStep_def t
    by (simp add: enrichTracks_def searchSpotifyTrack_def flaky_world_def demo_collected_def)
  with t s show ?thesis
    by (simp add: enrichStep_def no_token)
qed

text \<open>
  C9. When the enrichment step returns, the output has the length of the input, and the
  track at every position has the \<open>uid\<close>, \<open>artist\<close>, \<open>title\<close>, \<open>episodePath\<close>,
  \<open>episodeTitle\<close>, \<open>airDate\<close> and \<open>source\<close> of the input track at that position:
  dropping the added \<open>spotify\<close> field gives the input back.
\<close>

theorem enrichStep_frame:
  assumes "enrichStep w ts = Inr out"
  shows "length out = length ts
       \<and> map collected_track.truncate out = ts
       \<and> (\<forall>n < length ts.
             uid (out ! n) = uid (ts ! n)
           \<and> artist (out ! n) = artist (ts ! n)
           \<and> title (out ! n) = title (ts ! n)
           \<and> episodePath (out ! n) = episodePath (ts ! n)
           \<and> episodeTitle (out ! n) = episodeTitle (ts ! n)
           \<and> airDate (out ! n) = airDate (ts ! n)
           \<and> source (out ! n) = source (ts ! n))"
proof -
  from assms obtain tok where "enrichTracks w tok ts = Inr out"
    by (auto simp: enrichStep_def split: sum.splits)
  then have len: "length out = length ts"
    and nth: "\<forall>n < length ts. \<exists>sp. out ! n = with_spotify (ts ! n) sp"
    by (auto simp: enrichTracks_Inr)
  have t: "map collected_track.truncate out = ts"
    using len nth by (auto simp: list_eq_iff_nth_eq truncate_with_spotify)
  have "\<forall>n < length ts.
             uid (out ! n) = uid (ts ! n)
           \<and> artist (out ! n) = artist (ts ! n)
           \<and> title (out ! n) = title (ts ! n)
           \<and> episodePath (out ! n) = episodePath (ts ! n)
           \<and> episodeTitle (out ! n) = episodeTitle (ts ! n)
           \<and> airDate (out ! n) = airDate (ts ! n)
           \<and> source (out ! n) = source (ts ! n)"
    using nth by (auto simp: with_spotify_def)
  with len t show ?thesis by blast
qed

text \<open>
  The witness: the enriched tracks of the example, without their \<open>spotify\<close> field, are
  the three collected tracks.
\<close>

theorem enrichStep_frame_witness:
  "length (projr (enrichStep demo_world (allTracks demo_world demo_request))) = 3
   \<and> map collected_track.truncate
         (projr (enrichStep demo_world (allTracks demo_world demo_request)))
       = [demo_collected ''u1'' ''X'' ''Y'' ''/5'' 5, demo_collected ''u2'' ''P'' ''Q'' ''/5'' 5,
          demo_collected ''u1'' ''X'' ''Y'' ''/6'' 4]
   \<and> map uid (projr (enrichStep demo_world (allTracks demo_world demo_request)))
       = [''u1'', ''u2'', ''u1'']"
proof -
  let ?ts = "allTracks demo_world demo_request"
  let ?out = "projr (enrichStep demo_world ?ts)"
  have e: "enrichStep demo_world ?ts = Inr ?out"
    by (simp add: demo_enrichStep)
  from enrichStep_frame [OF e]
  have l: "length ?out = length ?ts" and t: "map collected_track.truncate ?out = ?ts"
    by blast+
  have "map uid ?out = map uid (map collected_track.truncate ?out)"
    by (simp add: collected_track.truncate_def)
  also have "\<dots> = [''u1'', ''u2'', ''u1'']"
    unfolding t by (simp add: demo_allTracks demo_collected_def)
  finally have u: "map uid ?out = [''u1'', ''u2'', ''u1'']" .
  from l t u show ?thesis by (simp add: demo_allTracks)
qed

section \<open>The outcome of a build\<close>

lemma uniqueEpisodes_Nil: "uniqueEpisodes eps = [] \<longleftrightarrow> eps = []"
proof -
  have "uniqueEpisodes eps = [] \<longleftrightarrow>
        set (map fst (new_Map (map (\<lambda>ep. (path ep, ep)) eps))) = {}"
    by (simp add: uniqueEpisodes_def map_values_def)
  also have "\<dots> \<longleftrightarrow> set (map path eps) = {}"
    by (simp only: keys_new_Map set_new_Set map_map comp_def fst_conv)
  also have "\<dots> \<longleftrightarrow> eps = []"
    by simp
  finally show ?thesis .
qed

lemma POST_cases:
  "POST w body =
     (if req_tracks body = [] \<and> req_genres body = [] then
        Inl (ApiError 400 ''Must provide at least one track or genre'')
      else if allEpisodes w body = [] then
        Inl (ApiError 404 ''No episodes found. All episodes may have been seen already.'')
      else
        (case enrichStep w (allTracks w body) of
           Inl err \<Rightarrow> Inl (ApiError 500 ''Failed to create stack'')
         | Inr tracksWithSpotify \<Rightarrow>
             Inr (buildStack w body (uniqueEpisodes (allEpisodes w body)) tracksWithSpotify)))"
  by (simp add: POST_def Let_def uniqueEpisodes_Nil)

lemma tracks_buildStack: "tracks (buildStack w body eps tws) = tws"
  by (simp add: buildStack_def Let_def)

lemma episodesUsed_buildStack: "episodesUsed (buildStack w body eps tws) = eps"
  by (simp add: buildStack_def Let_def map_idI)

lemma enrichStep_isl:
  "isl (enrichStep w ts) \<longleftrightarrow>
     isl (getSpotifyToken w)
     \<or> (\<exists>tok. getSpotifyToken w = Inr tok
          \<and> (\<exists>n < length ts.
                spotify_search w n tok (artist (ts ! n) @ '' '' @ title (ts ! n)) = Rejected))"
  by (cases "getSpotifyToken w") (simp_all add: enrichStep_def enrichTracks_isl)

lemma enrichStep_length: "enrichStep w ts = Inr out \<Longrightarrow> length out = length ts"
  by (auto simp: enrichStep_def enrichTracks_Inr split: sum.splits)

lemma episodeResults_track:
  "i < length (req_tracks body) \<Longrightarrow>
   episodeResults w body ! i =
     catch [] (fetchEpisodesForTrack w (seed_artist (req_tracks body ! i))
                 (seed_title (req_tracks body ! i)) (req_seenEpisodes body))"
  by (simp add: episodeResults_def nth_append)

lemma episodeResults_genre:
  "j < length (req_genres body) \<Longrightarrow>
   episodeResults w body ! (length (req_tracks body) + j) =
     catch [] (fetchEpisodesForGenre w (genre_id (req_genres body ! j)) (req_seenEpisodes body))"
  by (simp add: episodeResults_def nth_append)

lemma catch_isl: "isl r \<Longrightarrow> catch d r = d"
  by (cases r) (simp_all add: catch_def)

text \<open>
  C3, as the code has it, for a build in which no Spotify search request is rejected. The
  build returns an error exactly when no seed was supplied (status 400), or no seed
  yielded an unseen episode (status 404), or the Spotify token request fails (status
  500). Otherwise it returns a stack with all the collected tracks, also when there is
  none. A seed whose search fails contributes no episode, and an episode whose tracklist
  request fails contributes no track.
\<close>

theorem POST_fatal_conditions:
  assumes "\<forall>tok. getSpotifyToken w = Inr tok \<longrightarrow>
             (\<forall>n < length (allTracks w body).
                spotify_search w n tok
                  (artist (allTracks w body ! n) @ '' '' @ title (allTracks w body ! n))
                \<noteq> Rejected)"
  shows "(isl (POST w body) \<longleftrightarrow>
            (req_tracks body = [] \<and> req_genres body = [])
            \<or> allEpisodes w body = []
            \<or> isl (getSpotifyToken w))
       \<and> (req_tracks body = [] \<and> req_genres body = [] \<longrightarrow>
            POST w body = Inl (ApiError 400 ''Must provide at least one track or genre''))
       \<and> (\<not> (req_tracks body = [] \<and> req_genres body = []) \<and> allEpisodes w body = [] \<longrightarrow>
            POST w body =
              Inl (ApiError 404 ''No episodes found. All episodes may have been seen already.''))
       \<and> (\<not> (req_tracks body = [] \<and> req_genres body = []) \<and> allEpisodes w body \<noteq> []
            \<and> isl (getSpotifyToken w) \<longrightarrow>
            POST w body = Inl (ApiError 500 ''Failed to create stack''))
       \<and> (\<not> (req_tracks body = [] \<and> req_genres body = []) \<and> allEpisodes w body \<noteq> []
            \<and> \<not> isl (getSpotifyToken w) \<longrightarrow>
            (\<exists>st. POST w body = Inr st
                \<and> length (tracks st) = length (allTracks w body)
                \<and> episodesUsed st = uniqueEpisodes (allEpisodes w body)))
       \<and> (\<forall>i < length (req_tracks body).
            isl (fetchEpisodesForTrack w (seed_artist (req_tracks body ! i))
                   (seed_title (req_tracks body ! i)) (req_seenEpisodes body)) \<longrightarrow>
            episodeResults w body ! i = [])
       \<and> (\<forall>j < length (req_genres body).
            isl (fetchEpisodesForGenre w (genre_id (req_genres body ! j))
                   (req_seenEpisodes body)) \<longrightarrow>
            episodeResults w body ! (length (req_tracks body) + j) = [])
       \<and> (\<forall>k < length eps.
            isl (fetchTracklist w (path (eps ! k))) \<longrightarrow>
            snd (tracklistResults w eps ! k) = [])"
proof -
  let ?S = "req_tracks body = [] \<and> req_genres body = []"
  let ?ts = "allTracks w body"
  have e: "isl (enrichStep w ?ts) \<longleftrightarrow> isl (getSpotifyToken w)"
    using assms by (auto simp: enrichStep_isl)
  have c1: "isl (POST w body) \<longleftrightarrow> ?S \<or> allEpisodes w body = [] \<or> isl (getSpotifyToken w)"
    unfolding POST_cases e [symmetric] by (simp split: sum.splits)
  have c2: "?S \<longrightarrow> POST w body = Inl (ApiError 400 ''Must provide at least one track or genre'')"
    by (simp add: POST_cases)
  have c3: "\<not> ?S \<and> allEpisodes w body = [] \<longrightarrow>
            POST w body =
              Inl (ApiError 404 ''No episodes found. All episodes may have been seen already.'')"
    by (simp add: POST_cases)
  have c4: "\<not> ?S \<and> allEpisodes w body \<noteq> [] \<and> isl (getSpotifyToken w) \<longrightarrow>
            POST w body = Inl (ApiError 500 ''Failed to create stack'')"
  proof (intro impI)
    assume a: "\<not> ?S \<and> allEpisodes w body \<noteq> [] \<and> isl (getSpotifyToken w)"
    then have "isl (enrichStep w ?ts)" by (simp add: e)
    then obtain err where "enrichStep w ?ts = Inl err"
      by (cases "enrichStep w ?ts") auto
    with a show "POST w body = Inl (ApiError 500 ''Failed to create stack'')"
      by (simp add: POST_cases)
  qed
  have c5: "\<not> ?S \<and> allEpisodes w body \<noteq> [] \<and> \<not> isl (getSpotifyToken w) \<longrightarrow>
            (\<exists>st. POST w body = Inr st
                \<and> length (tracks st) = length ?ts
                \<and> episodesUsed st = uniqueEpisodes (allEpisodes w body))"
  proof (intro impI)
    assume a: "\<not> ?S \<and> allEpisodes w body \<noteq> [] \<and> \<not> isl (getSpotifyToken w)"
    then have "\<not> isl (enrichStep w ?ts)" by (simp add: e)
    then obtain out where out: "enrichStep w ?ts = Inr out"
      by (cases "enrichStep w ?ts") auto
    with a have "POST w body = Inr (buildStack w body (uniqueEpisodes (allEpisodes w body)) out)"
      by (simp add: POST_cases)
    moreover have "length out = length ?ts"
      using out by (rule enrichStep_length)
    ultimately show "\<exists>st. POST w body = Inr st
                \<and> length (tracks st) = length ?ts
                \<and> episodesUsed st = uniqueEpisodes (allEpisodes w body)"
      by (simp add: tracks_buildStack episodesUsed_buildStack)
  qed
  have c6: "\<forall>i < length (req_tracks body).
            isl (fetchEpisodesForTrack w (seed_artist (req_tracks body ! i))
                   (seed_title (req_tracks body ! i)) (req_seenEpisodes body)) \<longrightarrow>
            episodeResults w body ! i = []"
    by (simp add: episodeResults_track catch_isl)
  have c7: "\<forall>j < length (req_genres body).
            isl (fetchEpisodesForGenre w (genre_id (req_genres body ! j))
                   (req_seenEpisodes body)) \<longrightarrow>
            episodeResults w body ! (length (req_tracks body) + j) = []"
    by (simp add: episodeResults_genre catch_isl)
  have c8: "\<forall>k < length eps.
            isl (fetchTracklist w (path (eps ! k))) \<longrightarrow>
            snd (tracklistResults w eps ! k) = []"
    by (simp add: tracklistResults_def catch_isl)
  show ?thesis
    using c1 c2 c3 c4 c5 c6 c7 c8 by (intro conjI) assumption+
qed

lemma allEpisodes_same_search:
  assumes "nts_search w' = nts_search w" and "nts_genre_episodes w' = nts_genre_episodes w"
    and "req_tracks body' = req_tracks body" and "req_genres body' = req_genres body"
    and "req_seenEpisodes body' = req_seenEpisodes body"
  shows "allEpisodes w' body' = allEpisodes w body"
  unfolding allEpisodes_def episodeResults_def fetchEpisodesForTrack_def
    fetchEpisodesForGenre_def assms ..

lemma tracklistResults_same:
  assumes "nts_tracklist w' = nts_tracklist w"
  shows "tracklistResults w' eps = tracklistResults w eps"
  unfolding tracklistResults_def fetchTracklist_def assms ..

lemma no_token_allEpisodes:
  "allEpisodes no_token_world demo_request = allEpisodes demo_world demo_request"
  by (rule allEpisodes_same_search) (simp_all add: no_token_world_def)

lemma no_token_allTracks:
  "allTracks no_token_world demo_request = allTracks demo_world demo_request"
proof -
  have "tracklistResults no_token_world eps = tracklistResults demo_world eps" for eps
    by (rule tracklistResults_same) (simp add: no_token_world_def)
  then show ?thesis
    by (simp add: allTracks_def no_token_allEpisodes)
qed

lemma flaky_allEpisodes:
  "allEpisodes flaky_world demo_request = allEpisodes demo_world demo_request"
  by (rule allEpisodes_same_search) (simp_all add: flaky_world_def)

lemma flaky_allTracks:
  "allTracks flaky_world demo_request = allTracks demo_world demo_request"
proof -
  have "tracklistResults flaky_world eps = tracklistResults demo_world eps" for eps
    by (rule tracklistResults_same) (simp add: flaky_world_def)
  then show ?thesis
    by (simp add: allTracks_def flaky_allEpisodes)
qed

lemma referenced_allEpisodes:
  "allEpisodes demo_world referenced_request = allEpisodes demo_world demo_request"
  by (rule allEpisodes_same_search) (simp_all add: referenced_request_def)

lemma referenced_allTracks: "allTracks demo_world referenced_request = []"
  unfolding allTracks_def referenced_allEpisodes demo_uniqueEpisodes demo_tracklistResults
  by (simp add: collectTracks_def push_track_def referenced_request_def demo_request_def)

lemma seen_allEpisodes: "allEpisodes demo_world seen_request = []"
  by (simp add: allEpisodes_def episodeResults_def seen_request_def demo_request_def
      fetchEpisodesForTrack_def fetchEpisodesForGenre_def demo_world_def demo_results_def
      demo_result_def js_sort_def results_or_empty_def catch_def)

lemma demo_allEpisodes_not_Nil: "allEpisodes demo_world demo_request \<noteq> []"
  by (simp add: demo_allEpisodes)

lemma demo_seeds: "\<not> (req_tracks demo_request = [] \<and> req_genres demo_request = [])"
  by (simp add: demo_request_def)

lemma demo_rejected_tracklist: "fetchTracklist demo_world ''/2'' = Inl ''fetch failed''"
  by (simp add: fetchTracklist_def demo_world_def)

text \<open>
  The witness. In the example world no search is rejected. The example request gives a
  stack with three tracks, although one track seed, one genre seed and the tracklists of
  two episodes fail; the request with no seed gives 400; the request with every episode
  seen gives 404; and with the token request answered 401 the example request gives 500.
\<close>

theorem POST_fatal_conditions_witness:
  "POST demo_world empty_request
     = Inl (ApiError 400 ''Must provide at least one track or genre'')
   \<and> allEpisodes demo_world seen_request = []
   \<and> POST demo_world seen_request
       = Inl (ApiError 404 ''No episodes found. All episodes may have been seen already.'')
   \<and> isl (getSpotifyToken no_token_world)
   \<and> POST no_token_world demo_request = Inl (ApiError 500 ''Failed to create stack'')
   \<and> \<not> isl (POST demo_world demo_request)
   \<and> isl (fetchEpisodesForTrack demo_world [] ''down'' [''/3''])
   \<and> episodeResults demo_world demo_request ! 1 = []
   \<and> isl (fetchEpisodesForGenre demo_world ''techno'' [''/3''])
   \<and> episodeResults demo_world demo_request ! 3 = []
   \<and> isl (fetchTracklist demo_world ''/2'')
   \<and> snd (tracklistResults demo_world (uniqueEpisodes (allEpisodes demo_world demo_request)) ! 2)
       = []"
proof -
  have ok: "\<forall>tok. getSpotifyToken demo_world = Inr tok \<longrightarrow>
             (\<forall>n < length (allTracks demo_world body).
                spotify_search demo_world n tok
                  (artist (allTracks demo_world body ! n) @ '' ''
                     @ title (allTracks demo_world body ! n))
                \<noteq> Rejected)" for body
    by (simp add: demo_not_rejected)
  have ok': "\<forall>tok. getSpotifyToken no_token_world = Inr tok \<longrightarrow>
             (\<forall>n < length (allTracks no_token_world demo_request).
                spotify_search no_token_world n tok
                  (artist (allTracks no_token_world demo_request ! n) @ '' ''
                     @ title (allTracks no_token_world demo_request ! n))
                \<noteq> Rejected)"
    by (simp add: no_token)
  have empty: "req_tracks empty_request = [] \<and> req_genres empty_request = []"
    by (simp add: empty_request_def)
  have seen: "\<not> (req_tracks seen_request = [] \<and> req_genres seen_request = [])"
    by (simp add: seen_request_def demo_request_def)
  have tok: "isl (getSpotifyToken no_token_world)"
    by (simp add: no_token)
  have dtok: "\<not> isl (getSpotifyToken demo_world)"
    by (simp add: demo_token)
  note e_inst = POST_fatal_conditions [OF ok, of empty_request]
  have w1: "POST demo_world empty_request
     = Inl (ApiError 400 ''Must provide at least one track or genre'')"
    by (rule e_inst [THEN conjunct2, THEN conjunct1, THEN mp, OF empty])
  note s_inst = POST_fatal_conditions [OF ok, of seen_request]
  have w2: "POST demo_world seen_request
       = Inl (ApiError 404 ''No episodes found. All episodes may have been seen already.'')"
    by (rule s_inst [THEN conjunct2, THEN conjunct2, THEN conjunct1, THEN mp,
          OF conjI [OF seen seen_allEpisodes]])
  note n_inst = POST_fatal_conditions [OF ok']
  have ne: "allEpisodes no_token_world demo_request \<noteq> []"
    by (simp add: no_token_allEpisodes demo_allEpisodes)
  have w3: "POST no_token_world demo_request = Inl (ApiError 500 ''Failed to create stack'')"
    by (rule n_inst [THEN conjunct2, THEN conjunct2, THEN conjunct2, THEN conjunct1, THEN mp,
          OF conjI [OF demo_seeds conjI [OF ne tok]]])
  note inst = POST_fatal_conditions [OF ok, of demo_request
      "uniqueEpisodes (allEpisodes demo_world demo_request)"]
  have w4: "\<not> isl (POST demo_world demo_request)"
    using inst [THEN conjunct1] demo_seeds demo_allEpisodes_not_Nil dtok by simp
  have t1: "isl (fetchEpisodesForTrack demo_world [] ''down'' [''/3''])"
    by (simp add: demo_failed_track_seed)
  have g1: "isl (fetchEpisodesForGenre demo_world ''techno'' [''/3''])"
    by (simp add: demo_failed_genre_seed)
  have l1: "isl (fetchTracklist demo_world ''/2'')"
    by (simp add: demo_rejected_tracklist)
  note rest = inst [THEN conjunct2, THEN conjunct2, THEN conjunct2, THEN conjunct2,
      THEN conjunct2]
  have i1: "(1::nat) < length (req_tracks demo_request)"
    "isl (fetchEpisodesForTrack demo_world (seed_artist (req_tracks demo_request ! 1))
            (seed_title (req_tracks demo_request ! 1)) (req_seenEpisodes demo_request))"
    using t1 by (simp_all add: demo_request_def)
  have w5: "episodeResults demo_world demo_request ! 1 = []"
    by (rule rest [THEN conjunct1, rule_format, OF i1])
  have j1: "(1::nat) < length (req_genres demo_request)"
    "isl (fetchEpisodesForGenre demo_world (genre_id (req_genres demo_request ! 1))
            (req_seenEpisodes demo_request))"
    using g1 by (simp_all add: demo_request_def)
  have len3: "length (req_tracks demo_request) + 1 = 3"
    by (simp add: demo_request_def)
  have w6: "episodeResults demo_world demo_request ! 3 = []"
    using rest [THEN conjunct2, THEN conjunct1, rule_format, OF j1] unfolding len3 .
  have k1: "(2::nat) < length (uniqueEpisodes (allEpisodes demo_world demo_request))"
    "isl (fetchTracklist demo_world
            (path (uniqueEpisodes (allEpisodes demo_world demo_request) ! 2)))"
    using l1 by (simp_all add: demo_uniqueEpisodes genre_episode_def)
  have w7: "snd (tracklistResults demo_world
                   (uniqueEpisodes (allEpisodes demo_world demo_request)) ! 2) = []"
    by (rule rest [THEN conjunct2, THEN conjunct2, rule_format, OF k1])
  show ?thesis
    using w1 seen_allEpisodes w2 tok w3 w4 t1 w5 g1 w6 l1 w7 by (intro conjI) assumption+
qed

lemma enrichStep_Nil: "enrichStep demo_world [] = Inr []"
  by (simp add: enrichStep_def demo_token enrichTracks_def)

text \<open>
  Zero surviving tracks is not an error: with both tracks of the example already
  referenced, no track is collected and the build still returns a stack, with no track.
  And there is an error outside the three conditions: with seeds, unseen episodes and
  collected tracks, the build fails when the token request answers 401, and when one
  Spotify search is rejected.
\<close>

theorem POST_fatal_conditions_counterexample:
  "allTracks demo_world referenced_request = []
   \<and> \<not> isl (POST demo_world referenced_request)
   \<and> tracks (projr (POST demo_world referenced_request)) = []
   \<and> req_tracks demo_request \<noteq> []
   \<and> allEpisodes no_token_world demo_request \<noteq> []
   \<and> allTracks no_token_world demo_request \<noteq> []
   \<and> POST no_token_world demo_request = Inl (ApiError 500 ''Failed to create stack'')
   \<and> allEpisodes flaky_world demo_request \<noteq> []
   \<and> allTracks flaky_world demo_request \<noteq> []
   \<and> POST flaky_world demo_request = Inl (ApiError 500 ''Failed to create stack'')"
proof -
  have s: "\<not> (req_tracks referenced_request = [] \<and> req_genres referenced_request = [])"
    by (simp add: referenced_request_def demo_request_def)
  have e: "allEpisodes demo_world referenced_request \<noteq> []"
    by (simp add: referenced_allEpisodes demo_allEpisodes)
  have p: "POST demo_world referenced_request =
     Inr (buildStack demo_world referenced_request
            (uniqueEpisodes (allEpisodes demo_world referenced_request)) [])"
    using s e by (simp add: POST_cases referenced_allTracks enrichStep_Nil)
  have a: "\<not> isl (POST demo_world referenced_request)"
    "tracks (projr (POST demo_world referenced_request)) = []"
    by (simp_all add: p tracks_buildStack)
  have r: "req_tracks demo_request \<noteq> []"
    by (simp add: demo_request_def)
  have ne: "allEpisodes no_token_world demo_request \<noteq> []"
    by (simp add: no_token_allEpisodes demo_allEpisodes)
  have nt: "allTracks no_token_world demo_request \<noteq> []"
    by (simp add: no_token_allTracks demo_allTracks)
  have np: "POST no_token_world demo_request = Inl (ApiError 500 ''Failed to create stack'')"
    using r ne by (simp add: POST_cases enrichStep_def no_token)
  have fe: "allEpisodes flaky_world demo_request \<noteq> []"
    by (simp add: flaky_allEpisodes demo_allEpisodes)
  have ft: "allTracks flaky_world demo_request \<noteq> []"
    by (simp add: flaky_allTracks demo_allTracks)
  have "enrichStep flaky_world (allTracks flaky_world demo_request) = Inl ''fetch failed''"
    unfolding flaky_allTracks demo_allTracks
    by (simp add: enrichStep_def getSpotifyToken_def enrichTracks_def searchSpotifyTrack_def
        flaky_world_def demo_world_def demo_collected_def)
  then have fp: "POST flaky_world demo_request = Inl (ApiError 500 ''Failed to create stack'')"
    using r fe by (simp add: POST_cases)
  show ?thesis
    using referenced_allTracks a r ne nt np fe ft fp by (intro conjI) assumption+
qed

end
